theory Spec2Isabelle
  imports Main "HOL-Library.Product_Lexorder" "HOL-Library.List_Lexorder"
    "HOL-Library.Char_ord"
begin

section \<open>Data model of the moac control plane\<close>

text \<open>
  The embedding follows \<^verbatim>\<open>csi/moac/csi.js\<close> (the CSI controller) and the volume
  class that is stored behind it in the same file.  JavaScript numbers are modelled as
  \<^typ>\<open>int\<close>, strings as \<^typ>\<open>string\<close>, thrown exceptions as the left summand of a
  result.  Objects are modelled by their value; where the code compares two object
  references (\<^verbatim>\<open>this.nexus == nexus\<close>) the value carries the identity of the object in a
  field of its own.  Node objects are identified by their name, the key under which the
  registry holds them.
\<close>

datatype GrpcCode =
  OK | UNKNOWN | INVALID_ARGUMENT | NOT_FOUND | ALREADY_EXISTS
  | RESOURCE_EXHAUSTED | INTERNAL | UNAVAILABLE | UNIMPLEMENTED

text \<open>
  \<^verbatim>\<open>GrpcError(code, message)\<close>, and any other exception with its message
  (\<^verbatim>\<open>createVolume\<close> tells the two apart with \<^verbatim>\<open>instanceof GrpcError\<close>).  A failed
  \<^verbatim>\<open>assert\<close> and a read of a property of \<^verbatim>\<open>undefined\<close> are exceptions of the
  second kind.
\<close>

datatype error = GrpcError GrpcCode string | Error string

definition AssertionError :: error where
  "AssertionError = Error ''The expression evaluated to a falsy value''"

definition TypeError :: error where
  "TypeError = Error ''Cannot read properties of undefined''"

text \<open>
  \<^verbatim>\<open>err.message\<close>, \<^verbatim>\<open>err.code\<close> (only a \<^verbatim>\<open>GrpcError\<close> has one) and
  \<^verbatim>\<open>err.toString()\<close>, which for an \<^verbatim>\<open>Error\<close> is its name and its message.
\<close>

fun errMessage :: "error \<Rightarrow> string" where
  "errMessage (GrpcError c m) = m"
| "errMessage (Error m) = m"

fun errCode :: "error \<Rightarrow> GrpcCode option" where
  "errCode (GrpcError c m) = Some c"
| "errCode (Error m) = None"

definition errToString :: "error \<Rightarrow> string" where
  "errToString err = ''Error: '' @ errMessage err"

datatype PoolState = POOL_ONLINE | POOL_DEGRADED | POOL_FAULTED | POOL_OFFLINE

datatype ShareProtocol = REPLICA_NONE | REPLICA_NVMF | REPLICA_ISCSI

record pool =
  p_name :: string
  p_node :: string
  p_state :: PoolState
  p_capacity :: int
  p_used :: int
  p_replicas :: "string list"

record replica =
  r_ref :: nat
  r_uuid :: string
  r_node :: string
  r_pool :: string
  r_size :: int
  r_share :: ShareProtocol
  r_uri :: string
  r_state :: string

record nexus =
  n_ref :: nat
  n_uuid :: string
  n_node :: string
  n_size :: int
  n_state :: string
  n_children :: "(string \<times> string) list"

text \<open>
  The volume: its specification, and its state variables.  \<^verbatim>\<open>this.replicas\<close> is an
  object indexed by node name; \<^verbatim>\<open>Object.values\<close> lists it in insertion order, so it
  is an association list here.  A \<^verbatim>\<open>limitBytes\<close> or \<^verbatim>\<open>size\<close> of 0 is "not set".
\<close>

record volume =
  v_uuid :: string
  v_replicaCount :: int
  v_preferredNodes :: "string list"
  v_requiredNodes :: "string list"
  v_requiredBytes :: int
  v_limitBytes :: int
  v_size :: int
  v_nexus :: "nexus option"
  v_replicas :: "(string \<times> replica) list"
  v_state :: string
  v_reason :: string

text \<open>
  The constructor of the volume.  A replica count of 0 (or none) stands for 1, and the
  lists of nodes are kept sorted.
\<close>

record volumeSpec =
  vs_replicaCount :: int
  vs_preferredNodes :: "string list"
  vs_requiredNodes :: "string list"
  vs_requiredBytes :: int
  vs_limitBytes :: int

definition Volume :: "string \<Rightarrow> volumeSpec \<Rightarrow> volume" where
  "Volume uuid spec =
     \<lparr>v_uuid = uuid,
      v_replicaCount = (if vs_replicaCount spec = 0 then 1 else vs_replicaCount spec),
      v_preferredNodes = sort (vs_preferredNodes spec),
      v_requiredNodes = sort (vs_requiredNodes spec),
      v_requiredBytes = vs_requiredBytes spec,
      v_limitBytes = vs_limitBytes spec,
      v_size = 0,
      v_nexus = None,
      v_replicas = [],
      v_state = ''PENDING'',
      v_reason = ''The volume is being created''\<rparr>"

section \<open>Event handlers of the volume for nexus events\<close>

text \<open>
  \<^verbatim>\<open>Volume.newNexus\<close>, \<^verbatim>\<open>Volume.modNexus\<close> and \<^verbatim>\<open>Volume.delNexus\<close>.  Each
  asserts that the nexus carries the uuid of the volume.  \<^verbatim>\<open>newNexus\<close> ignores the
  event (with a warning) when the volume has a nexus already; the other two ignore it when
  the volume has none, and assert that the nexus of the event is the object the volume
  holds.  The object was updated in place before the event was sent, so the model stores
  the value it is given.
\<close>

definition newNexus :: "volume \<Rightarrow> nexus \<Rightarrow> error + volume" where
  "newNexus v nx =
     (if n_uuid nx \<noteq> v_uuid v then Inl AssertionError
      else if v_nexus v \<noteq> None then Inr v
      else Inr (v\<lparr>v_nexus := Some nx, v_state := n_state nx, v_reason := ''''\<rparr>))"

definition modNexus :: "volume \<Rightarrow> nexus \<Rightarrow> error + volume" where
  "modNexus v nx =
     (if n_uuid nx \<noteq> v_uuid v then Inl AssertionError
      else case v_nexus v of
        None \<Rightarrow> Inr v
      | Some cur \<Rightarrow>
          if n_ref cur \<noteq> n_ref nx then Inl AssertionError
          else Inr (v\<lparr>v_nexus := Some nx, v_state := n_state nx, v_reason := ''''\<rparr>))"

definition delNexus :: "volume \<Rightarrow> nexus \<Rightarrow> error + volume" where
  "delNexus v nx =
     (if n_uuid nx \<noteq> v_uuid v then Inl AssertionError
      else case v_nexus v of
        None \<Rightarrow> Inr v
      | Some cur \<Rightarrow>
          if n_ref cur \<noteq> n_ref nx then Inl AssertionError
          else Inr (v\<lparr>v_nexus := None, v_state := ''PENDING'',
                      v_reason := ''The volume is missing nexus''\<rparr>))"

section \<open>CSI controller: volume capabilities\<close>

record capability =
  accessMode :: string

text \<open>
  \<^verbatim>\<open>checkCapabilities(caps)\<close>: a missing list is refused, and so is the first
  capability whose access mode is not \<^verbatim>\<open>SINGLE_NODE_WRITER\<close>.
\<close>

fun checkCapabilitiesLoop :: "capability list \<Rightarrow> error + unit" where
  "checkCapabilitiesLoop [] = Inr ()"
| "checkCapabilitiesLoop (cap # caps) =
     (if accessMode cap \<noteq> ''SINGLE_NODE_WRITER''
      then Inl (GrpcError INVALID_ARGUMENT
                  (''Access mode '' @ accessMode cap @ '' not supported''))
      else checkCapabilitiesLoop caps)"

definition checkCapabilities :: "capability list option \<Rightarrow> error + unit" where
  "checkCapabilities caps =
     (case caps of
        None \<Rightarrow> Inl (GrpcError INVALID_ARGUMENT ''Missing volume capabilities'')
      | Some cs \<Rightarrow> checkCapabilitiesLoop cs)"

section \<open>CSI controller: the name of a volume\<close>

text \<open>
  \<^verbatim>\<open>PVC_RE = /pvc-([0-9a-f]{8}-[0-9a-f]{4}-[0-9a-f]{4}-[0-9a-f]{4}-[0-9a-f]{12})/\<close>.
  The expression has no anchors, so \<^verbatim>\<open>name.match(PVC_RE)\<close> finds the leftmost place
  of the name where the pattern starts; \<^verbatim>\<open>m[1]\<close> is the text of the group there.
  \<open>hexRun n s\<close> reads \<open>[0-9a-f]{n}\<close> at the start of \<open>s\<close> and \<open>lit l s\<close> the literal
  \<open>l\<close>; both give the rest of the input.
\<close>

definition isHex :: "char \<Rightarrow> bool" where
  "isHex c = (c \<in> set ''0123456789abcdef'')"

fun hexRun :: "nat \<Rightarrow> string \<Rightarrow> string option" where
  "hexRun 0 s = Some s"
| "hexRun (Suc n) [] = None"
| "hexRun (Suc n) (c # cs) = (if isHex c then hexRun n cs else None)"

fun lit :: "string \<Rightarrow> string \<Rightarrow> string option" where
  "lit [] s = Some s"
| "lit (l # ls) [] = None"
| "lit (l # ls) (c # cs) = (if c = l then lit ls cs else None)"

definition uuidGroup :: "string \<Rightarrow> string option" where
  "uuidGroup s =
     Option.bind (hexRun 8 s) (\<lambda>s1.
     Option.bind (lit ''-'' s1) (\<lambda>s2.
     Option.bind (hexRun 4 s2) (\<lambda>s3.
     Option.bind (lit ''-'' s3) (\<lambda>s4.
     Option.bind (hexRun 4 s4) (\<lambda>s5.
     Option.bind (lit ''-'' s5) (\<lambda>s6.
     Option.bind (hexRun 4 s6) (\<lambda>s7.
     Option.bind (lit ''-'' s7) (\<lambda>s8.
     Option.bind (hexRun 12 s8) (\<lambda>_. Some (take 36 s))))))))))"

definition PVC_RE_at :: "string \<Rightarrow> string option" where
  "PVC_RE_at s = Option.bind (lit ''pvc-'' s) uuidGroup"

fun PVC_RE_match :: "string \<Rightarrow> string option" where
  "PVC_RE_match [] = PVC_RE_at []"
| "PVC_RE_match (c # cs) =
     (case PVC_RE_at (c # cs) of
        Some g \<Rightarrow> Some g
      | None \<Rightarrow> PVC_RE_match cs)"

section \<open>CSI controller: CreateVolume\<close>

type_synonym topology = "(string \<times> string) list"



datatype volumeContentSource = SnapshotSource string | VolumeSource string










section \<open>CSI controller: the check for readiness\<close>

text \<open>
  The constructor of \<^verbatim>\<open>CsiServer\<close> wraps every controller method in \<^verbatim>\<open>checkReady\<close>:
  until \<^verbatim>\<open>makeReady\<close> has been called the request is answered with \<^verbatim>\<open>UNAVAILABLE\<close>
  and the method is not run.  The other sections model the methods themselves.
\<close>

definition checkReady ::
  "bool \<Rightarrow> ('w \<Rightarrow> (error + 'a) \<times> 'w) \<Rightarrow> 'w \<Rightarrow> (error + 'a) \<times> 'w" where
  "checkReady ready method w =
     (if \<not> ready then (Inl (GrpcError UNAVAILABLE ''Not ready for serving requests''), w)
      else method w)"

section \<open>CSI controller: ControllerPublishVolume\<close>

text \<open>The parsed node id, of which the controller reads \<^verbatim>\<open>node\<close>.\<close>

record mayastorNodeId =
  node :: string

text \<open>
  Modelled from the spec: \<^verbatim>\<open>parseMayastorNodeId\<close> of \<^verbatim>\<open>common.js\<close>, which is not
  among the sources.  The spec gives the format of a node id as
  \<^verbatim>\<open>mayastor://<node-name>\<close>, "parsed with strict schema check" and "rejected
  otherwise".  The spec names no code for the rejection; the model uses the one it gives
  for CSI input validation.
\<close>

definition parseMayastorNodeId :: "string \<Rightarrow> error + mayastorNodeId" where
  "parseMayastorNodeId s =
     (case lit ''mayastor://'' s of
        None \<Rightarrow> Inl (GrpcError INVALID_ARGUMENT (''Invalid mayastor node ID: '' @ s))
      | Some name \<Rightarrow> Inr \<lparr>node = name\<rparr>)"

record controllerPublishVolumeRequest =
  cp_volumeId :: string
  cp_nodeId :: string
  cp_volumeCapability :: "capability option"
  cp_readonly :: bool

text \<open>
  \<^verbatim>\<open>CsiServer.controllerPublishVolume\<close>.  \<open>getNexus\<close> is \<^verbatim>\<open>this.volumes.getNexus\<close>
  and \<open>publishNexus\<close> is \<^verbatim>\<open>this.volumes.publishNexus\<close>, which acts on the state
  \<open>w\<close> of the volume operator and may throw.  The reply of a successful call is the
  empty object.
\<close>

definition controllerPublishVolume ::
  "(string \<Rightarrow> 'w \<Rightarrow> nexus option) \<Rightarrow> (string \<Rightarrow> 'w \<Rightarrow> error option \<times> 'w)
     \<Rightarrow> controllerPublishVolumeRequest \<Rightarrow> 'w \<Rightarrow> (error + unit) \<times> 'w" where
  "controllerPublishVolume getNexus publishNexus args w =
     (case getNexus (cp_volumeId args) w of
        None \<Rightarrow>
          (Inl (GrpcError NOT_FOUND
                  (''Volume \"'' @ cp_volumeId args @ ''\" does not exist'')), w)
      | Some nexus \<Rightarrow>
         (case parseMayastorNodeId (cp_nodeId args) of
            Inl err \<Rightarrow> (Inl err, w)
          | Inr nodeId \<Rightarrow>
              if node nodeId \<noteq> n_node nexus
              then (Inl (GrpcError INVALID_ARGUMENT
                           (''Cannot publish the volume \"'' @ cp_volumeId args
                            @ ''\" on a different node \"'' @ node nodeId
                            @ ''\" than it was created \"'' @ n_node nexus @ ''\"'')), w)
              else if cp_readonly args
              then (Inl (GrpcError INVALID_ARGUMENT ''readonly volumes are unsupported''), w)
              else (case cp_volumeCapability args of
                      None \<Rightarrow>
                        (Inl (GrpcError INVALID_ARGUMENT ''missing volume capability''), w)
                    | Some cap \<Rightarrow>
                       (case checkCapabilities (Some [cap]) of
                          Inl err \<Rightarrow> (Inl err, w)
                        | Inr _ \<Rightarrow>
                           (case publishNexus (n_uuid nexus) w of
                              (None, w') \<Rightarrow> (Inr (), w')
                            | (Some err, w') \<Rightarrow>
                                if errCode err = Some ALREADY_EXISTS
                                then (Inr (), w')
                                else (Inl err, w'))))))"

section \<open>CSI controller: GetCapacity\<close>

text \<open>
  Modelled from the spec: \<^verbatim>\<open>isPoolAccessible\<close> of \<^verbatim>\<open>common.js\<close>, which is not among
  the sources.  The spec: "\<open>accessible = state \<in> {ONLINE, DEGRADED}\<close>"; the unit tests
  of the pool expect the same.
\<close>

definition isPoolAccessible :: "pool \<Rightarrow> bool" where
  "isPoolAccessible p = (p_state p = POOL_ONLINE \<or> p_state p = POOL_DEGRADED)"

text \<open>
  Modelled from the spec: \<^verbatim>\<open>Pool.freeBytes\<close> of \<^verbatim>\<open>pool.js\<close>, which is not among the
  sources.  The spec: "\<open>freeBytes = capacity - used\<close>"; the unit test of the pool
  expects 96 for a capacity of 100 with 4 used.
\<close>

definition freeBytes :: "pool \<Rightarrow> int" where
  "freeBytes p = p_capacity p - p_used p"

record getCapacityRequest =
  gc_volumeCapabilities :: "capability list option"
  gc_accessibleTopology :: "topology option"

text \<open>
  The loop \<^verbatim>\<open>for (let key in args.accessibleTopology.segments)\<close>: the value of the
  first hostname segment, if there is one.
\<close>

fun hostnameSegment :: "topology \<Rightarrow> string option" where
  "hostnameSegment [] = None"
| "hostnameSegment ((key, val) # segs) =
     (if key = ''kubernetes.io/hostname'' then Some val else hostnameSegment segs)"

text \<open>
  The two reductions of \<^verbatim>\<open>getCapacity\<close>, as \<^verbatim>\<open>Array.reduce\<close> runs them from the
  left.  The one for a single node gives \<^verbatim>\<open>0\<close>, not \<^verbatim>\<open>acc\<close>, at a pool that is not
  accessible.
\<close>

fun nodeCapacityReduce :: "int \<Rightarrow> pool list \<Rightarrow> int" where
  "nodeCapacityReduce acc [] = acc"
| "nodeCapacityReduce acc (p # ps) =
     nodeCapacityReduce
       (if isPoolAccessible p then acc + (p_capacity p - p_used p) else 0) ps"

fun totalCapacityReduce :: "int \<Rightarrow> pool list \<Rightarrow> int" where
  "totalCapacityReduce acc [] = acc"
| "totalCapacityReduce acc (p # ps) =
     totalCapacityReduce (acc + (p_capacity p - p_used p)) ps"

text \<open>
  \<^verbatim>\<open>CsiServer.getCapacity\<close>.  \<open>syncNode\<close> is \<^verbatim>\<open>this.pools.syncNode\<close> (with the name
  of a node, or without), which refreshes the state \<open>w\<close> of the pool operator, and
  \<open>poolsGet\<close> is \<^verbatim>\<open>this.pools.get()\<close>.
\<close>

definition getCapacity ::
  "(string option \<Rightarrow> 'w \<Rightarrow> 'w) \<Rightarrow> ('w \<Rightarrow> pool list)
     \<Rightarrow> getCapacityRequest \<Rightarrow> 'w \<Rightarrow> (error + int) \<times> 'w" where
  "getCapacity syncNode poolsGet args w =
     (case (case gc_volumeCapabilities args of
              None \<Rightarrow> Inr ()
            | Some caps \<Rightarrow> checkCapabilities (Some caps)) of
        Inl err \<Rightarrow> (Inl err, w)
      | Inr _ \<Rightarrow>
         (case (case gc_accessibleTopology args of
                  None \<Rightarrow> None
                | Some segments \<Rightarrow> hostnameSegment segments) of
            Some nodeName \<Rightarrow>
              (let w' = syncNode (Some nodeName) w
               in (Inr (nodeCapacityReduce 0
                          (filter (\<lambda>p. p_node p = nodeName) (poolsGet w'))), w'))
          | None \<Rightarrow>
              (let w' = syncNode None w
               in (Inr (totalCapacityReduce 0 (filter isPoolAccessible (poolsGet w'))), w'))))"

text \<open>
  What the capacity of a list of pools is to be: the sum of \<open>capacity - used\<close> over the
  accessible ones.
\<close>

definition accessibleCapacity :: "pool list \<Rightarrow> int" where
  "accessibleCapacity ps = (\<Sum>p \<leftarrow> filter isPoolAccessible ps. p_capacity p - p_used p)"

section \<open>Registry: the choice of pools\<close>

text \<open>
  Modelled from the spec: the registry of \<^verbatim>\<open>registry.js\<close>, which is not among the
  sources.  It holds the storage nodes by name, and every node owns its pools.
\<close>

record storageNode =
  sn_name :: string
  sn_pools :: "pool list"

type_synonym registry = "storageNode list"

text \<open>
  Modelled from the spec: \<^verbatim>\<open>Registry.getPool()\<close>, a read query that lists the pools of
  all nodes.
\<close>

definition getPool :: "registry \<Rightarrow> pool list" where
  "getPool reg = concat (map sn_pools reg)"

text \<open>
  Modelled from the spec: the key tuple of the placement algorithm.  The pool with the
  smaller key comes first.  In the order of the components: a pool on a node of
  \<open>shouldNodes\<close> before one that is not, \<^verbatim>\<open>POOL_ONLINE\<close> before any other state,
  fewer replicas before more, more free bytes before fewer.
\<close>

definition poolKey :: "string list \<Rightarrow> pool \<Rightarrow> bool \<times> bool \<times> nat \<times> int" where
  "poolKey shouldNodes p =
     (p_node p \<notin> set shouldNodes, p_state p \<noteq> POOL_ONLINE, length (p_replicas p),
      - freeBytes p)"

text \<open>
  Modelled from the spec: the same components in the order the spec lists them, with the
  membership in \<open>shouldNodes\<close> as the last one.
\<close>

definition poolKeyShouldLast :: "string list \<Rightarrow> pool \<Rightarrow> bool \<times> nat \<times> int \<times> bool" where
  "poolKeyShouldLast shouldNodes p =
     (p_state p \<noteq> POOL_ONLINE, length (p_replicas p), - freeBytes p,
      p_node p \<notin> set shouldNodes)"

text \<open>
  Modelled from the spec: the greedy pass of the placement algorithm.  A pool is taken
  unless its node has contributed one already.
\<close>

fun onePerNode :: "pool list \<Rightarrow> string list \<Rightarrow> pool list" where
  "onePerNode [] nodes = []"
| "onePerNode (p # ps) nodes =
     (if p_node p \<in> set nodes then onePerNode ps nodes
      else p # onePerNode ps (nodes @ [p_node p]))"

text \<open>
  Modelled from the spec: \<^verbatim>\<open>Registry.choosePools\<close> of \<^verbatim>\<open>registry.js\<close>, which is not
  among the sources; only its unit tests are.  The spec's placement algorithm: consider
  every pool of every node; keep those that are accessible, have at least
  \<open>requiredBytes\<close> free and, if \<open>mustNodes\<close> is not empty, are on one of its nodes; sort
  by the key tuple; take at most one pool per node, greedily.  The sort is stable.  The
  key is a parameter here.
\<close>

definition choosePoolsBy ::
  "(pool \<Rightarrow> 'k::linorder) \<Rightarrow> int \<Rightarrow> string list \<Rightarrow> registry \<Rightarrow> pool list" where
  "choosePoolsBy key requiredBytes mustNodes reg =
     onePerNode
       (sort_key key
          (filter (\<lambda>p. isPoolAccessible p \<and> requiredBytes \<le> freeBytes p
                       \<and> (mustNodes = [] \<or> p_node p \<in> set mustNodes))
             (getPool reg)))
       []"

text \<open>
  Modelled from the spec: the key of \<^verbatim>\<open>Registry.choosePools\<close>.  The spec lists the
  membership in \<open>shouldNodes\<close> as the last component of the key.  The unit test "should
  prefer pool on node preferred by user" requires a degraded pool on a preferred node
  before an online pool elsewhere, which that order does not give; so the key of the
  model has the preference as its first component, and the other components in the order
  of the spec.
\<close>

definition choosePools :: "int \<Rightarrow> string list \<Rightarrow> string list \<Rightarrow> registry \<Rightarrow> pool list" where
  "choosePools requiredBytes mustNodes shouldNodes reg =
     choosePoolsBy (poolKey shouldNodes) requiredBytes mustNodes reg"

section \<open>The volume: event handlers for replicas\<close>

text \<open>
  \<^verbatim>\<open>Volume.newReplica\<close> and \<^verbatim>\<open>Volume.delReplica\<close>.  The replicas are kept under
  the name of their node; a second replica on a node is ignored with a warning.
\<close>

definition newReplica :: "volume \<Rightarrow> replica \<Rightarrow> error + volume" where
  "newReplica v replica =
     (if r_uuid replica \<noteq> v_uuid v then Inl AssertionError
      else case map_of (v_replicas v) (r_node replica) of
        Some cur \<Rightarrow> Inr v
      | None \<Rightarrow> Inr (v\<lparr>v_replicas := v_replicas v @ [(r_node replica, replica)]\<rparr>))"

definition delReplica :: "volume \<Rightarrow> replica \<Rightarrow> error + volume" where
  "delReplica v replica =
     (if r_uuid replica \<noteq> v_uuid v then Inl AssertionError
      else case map_of (v_replicas v) (r_node replica) of
        None \<Rightarrow> Inr v
      | Some cur \<Rightarrow>
          if r_ref cur \<noteq> r_ref replica then Inl AssertionError
          else Inr (v\<lparr>v_replicas :=
                        filter (\<lambda>(nodeName, r). nodeName \<noteq> r_node replica) (v_replicas v)\<rparr>))"

section \<open>The volume: calls to the storage nodes\<close>

text \<open>
  The volume reaches the storage nodes through the registry and through the pool,
  replica, nexus and node objects, whose classes are not among the sources.  Their
  methods are parameters of the model: each acts on the state \<open>'w\<close> of the nodes and
  gives a result or throws.  The model keeps a log of the calls it makes, with the
  exception each one threw, if any.
\<close>

datatype rpc =
    CreateReplica pool string int
  | SetShare replica ShareProtocol
  | CreateNexus string string int "replica list"
  | RemoveReplica nexus replica
  | AddReplica nexus replica
  | DestroyReplica replica

record 'w nodes =
  registryChoosePools :: "int \<Rightarrow> string list \<Rightarrow> string list \<Rightarrow> 'w \<Rightarrow> pool list"
  poolCreateReplica :: "pool \<Rightarrow> string \<Rightarrow> int \<Rightarrow> 'w \<Rightarrow> (error + replica) \<times> 'w"
  replicaSetShare :: "replica \<Rightarrow> ShareProtocol \<Rightarrow> 'w \<Rightarrow> (error + string) \<times> 'w"
  nodeCreateNexus :: "string \<Rightarrow> string \<Rightarrow> int \<Rightarrow> replica list \<Rightarrow> 'w \<Rightarrow> (error + nexus) \<times> 'w"
  nexusRemoveReplica :: "nexus \<Rightarrow> replica \<Rightarrow> 'w \<Rightarrow> error option \<times> 'w"
  nexusAddReplica :: "nexus \<Rightarrow> replica \<Rightarrow> 'w \<Rightarrow> (error + string) \<times> 'w"
  replicaDestroy :: "replica \<Rightarrow> 'w \<Rightarrow> error option \<times> 'w"

record 'w sys =
  world :: 'w
  rpcs :: "(rpc \<times> error option) list"

definition errorOf :: "error + 'a \<Rightarrow> error option" where
  "errorOf res = (case res of Inl err \<Rightarrow> Some err | Inr _ \<Rightarrow> None)"

definition callCreateReplica ::
  "'w nodes \<Rightarrow> pool \<Rightarrow> string \<Rightarrow> int \<Rightarrow> 'w sys \<Rightarrow> (error + replica) \<times> 'w sys" where
  "callCreateReplica env pool uuid sz s =
     (case poolCreateReplica env pool uuid sz (world s) of
        (res, w') \<Rightarrow>
          (res, \<lparr>world = w', rpcs = rpcs s @ [(CreateReplica pool uuid sz, errorOf res)]\<rparr>))"

definition callSetShare ::
  "'w nodes \<Rightarrow> replica \<Rightarrow> ShareProtocol \<Rightarrow> 'w sys \<Rightarrow> (error + string) \<times> 'w sys" where
  "callSetShare env replica share s =
     (case replicaSetShare env replica share (world s) of
        (res, w') \<Rightarrow>
          (res, \<lparr>world = w', rpcs = rpcs s @ [(SetShare replica share, errorOf res)]\<rparr>))"

definition callCreateNexus ::
  "'w nodes \<Rightarrow> string \<Rightarrow> string \<Rightarrow> int \<Rightarrow> replica list \<Rightarrow> 'w sys
     \<Rightarrow> (error + nexus) \<times> 'w sys" where
  "callCreateNexus env nodeName uuid sz replicas s =
     (case nodeCreateNexus env nodeName uuid sz replicas (world s) of
        (res, w') \<Rightarrow>
          (res, \<lparr>world = w',
                 rpcs = rpcs s @ [(CreateNexus nodeName uuid sz replicas, errorOf res)]\<rparr>))"

definition callRemoveReplica ::
  "'w nodes \<Rightarrow> nexus \<Rightarrow> replica \<Rightarrow> 'w sys \<Rightarrow> error option \<times> 'w sys" where
  "callRemoveReplica env nexus replica s =
     (case nexusRemoveReplica env nexus replica (world s) of
        (res, w') \<Rightarrow>
          (res, \<lparr>world = w', rpcs = rpcs s @ [(RemoveReplica nexus replica, res)]\<rparr>))"

definition callAddReplica ::
  "'w nodes \<Rightarrow> nexus \<Rightarrow> replica \<Rightarrow> 'w sys \<Rightarrow> (error + string) \<times> 'w sys" where
  "callAddReplica env nexus replica s =
     (case nexusAddReplica env nexus replica (world s) of
        (res, w') \<Rightarrow>
          (res, \<lparr>world = w', rpcs = rpcs s @ [(AddReplica nexus replica, errorOf res)]\<rparr>))"

definition callDestroy :: "'w nodes \<Rightarrow> replica \<Rightarrow> 'w sys \<Rightarrow> error option \<times> 'w sys" where
  "callDestroy env replica s =
     (case replicaDestroy env replica (world s) of
        (res, w') \<Rightarrow> (res, \<lparr>world = w', rpcs = rpcs s @ [(DestroyReplica replica, res)]\<rparr>))"

text \<open>
  Modelled from the spec: the relay of the events of the registry to the volume, which
  is the work of the volume manager (\<^verbatim>\<open>volumes.js\<close>, not among the sources).  The spec:
  "every create/modify/delete emits an event upstream" and "event handlers keep the
  in-memory view consistent with registry events".  An object that a call has created,
  modified or destroyed reaches the handler of the volume before the call returns; a
  handler that refuses the object leaves the volume as it is.  Here, the event for a
  replica that \<^verbatim>\<open>pool.createReplica\<close> has created.
\<close>

definition replicaCreated :: "volume \<Rightarrow> replica \<Rightarrow> volume" where
  "replicaCreated v replica = (case newReplica v replica of Inr v' \<Rightarrow> v' | Inl _ \<Rightarrow> v)"

text \<open>
  Modelled from the spec: the relay of the event for a replica that
  \<^verbatim>\<open>replica.destroy\<close> has destroyed.
\<close>

definition replicaDestroyed :: "volume \<Rightarrow> replica \<Rightarrow> volume" where
  "replicaDestroyed v replica = (case delReplica v replica of Inr v' \<Rightarrow> v' | Inl _ \<Rightarrow> v)"

text \<open>
  Modelled from the spec: the relay of the event for a nexus that
  \<^verbatim>\<open>node.createNexus\<close> has created.
\<close>

definition nexusCreated :: "volume \<Rightarrow> nexus \<Rightarrow> volume" where
  "nexusCreated v nexus = (case newNexus v nexus of Inr v' \<Rightarrow> v' | Inl _ \<Rightarrow> v)"

text \<open>
  Modelled from the spec: the relay of the event for a nexus whose children have
  changed.
\<close>

definition nexusModified :: "volume \<Rightarrow> nexus \<Rightarrow> volume" where
  "nexusModified v nexus = (case modNexus v nexus of Inr v' \<Rightarrow> v' | Inl _ \<Rightarrow> v)"

section \<open>The volume: creation of the missing replicas\<close>

definition MAX_SAFE_INTEGER :: int where
  "MAX_SAFE_INTEGER = 9007199254740991"

text \<open>\<^verbatim>\<open>Array.join\<close>.\<close>

fun joinWith :: "string \<Rightarrow> string list \<Rightarrow> string" where
  "joinWith sep [] = []"
| "joinWith sep [x] = x"
| "joinWith sep (x # y # ys) = x @ sep @ joinWith sep (y # ys)"

text \<open>
  \<^verbatim>\<open>pools.reduce((acc, pool) => Math.min(acc, pool.freeBytes()), Number.MAX_SAFE_INTEGER)\<close>.
\<close>

fun minFreeReduce :: "int \<Rightarrow> pool list \<Rightarrow> int" where
  "minFreeReduce acc [] = acc"
| "minFreeReduce acc (pool # pools) = minFreeReduce (min acc (freeBytes pool)) pools"

text \<open>
  The loop of \<^verbatim>\<open>_createReplicas\<close> that tries one pool after another:
  \<^verbatim>\<open>for (let i = 0; i < pools.length && count > 0; i++)\<close>.  A replica that has been
  created reaches the volume as an event.
\<close>

fun createLoop ::
  "'w nodes \<Rightarrow> pool list \<Rightarrow> int \<Rightarrow> string list \<Rightarrow> volume \<Rightarrow> 'w sys
     \<Rightarrow> int \<times> string list \<times> volume \<times> 'w sys" where
  "createLoop env [] count errors v s = (count, errors, v, s)"
| "createLoop env (pool # pools) count errors v s =
     (if count > 0 then
        (case callCreateReplica env pool (v_uuid v) (v_size v) s of
           (Inl err, s') \<Rightarrow> createLoop env pools count (errors @ [errMessage err]) v s'
         | (Inr replica, s') \<Rightarrow>
             createLoop env pools (count - 1) errors (replicaCreated v replica) s')
      else (count, errors, v, s))"

text \<open>
  \<^verbatim>\<open>Volume._createReplicas(count)\<close>.  The result is the exception, if one is thrown,
  with the volume and the nodes as the call leaves them.
\<close>

definition candidatePools :: "'w nodes \<Rightarrow> volume \<Rightarrow> 'w sys \<Rightarrow> pool list" where
  "candidatePools env v s =
     filter (\<lambda>p. p_node p \<notin> set (map fst (v_replicas v)))
       (registryChoosePools env (v_requiredBytes v) (v_requiredNodes v) (v_preferredNodes v)
          (world s))"

definition createReplicas ::
  "'w nodes \<Rightarrow> volume \<Rightarrow> int \<Rightarrow> 'w sys \<Rightarrow> (error + unit) \<times> volume \<times> 'w sys" where
  "createReplicas env v count s =
     (let pools = candidatePools env v s in
      if int (length pools) < count
      then (Inl (GrpcError RESOURCE_EXHAUSTED
                   ''Cannot find suitable storage pool(s) for the volume''), v, s)
      else
        (let v1 = (if v_size v = 0
                   then v\<lparr>v_size :=
                          min (minFreeReduce MAX_SAFE_INTEGER pools)
                              (if v_limitBytes v \<noteq> 0 then v_limitBytes v
                               else v_requiredBytes v)\<rparr>
                   else v)
         in case createLoop env pools count [] v1 s of
              (count', errors, v2, s2) \<Rightarrow>
                if count' > 0
                then (Inl (GrpcError INTERNAL
                             (''Failed to create required number of replicas for volume \"''
                              @ v_uuid v @ ''\": '' @ joinWith ''. '' errors)), v2, s2)
                else (Inr (), v2, s2)))"

section \<open>The volume: share protocols of the replicas\<close>

text \<open>\<^verbatim>\<open>Volume._scoreReplica\<close>.\<close>

definition scoreReplica :: "volume \<Rightarrow> replica \<Rightarrow> int" where
  "scoreReplica v replica =
     (if v_requiredNodes v \<noteq> [] \<and> r_node replica \<in> set (v_requiredNodes v) then 10 else 0)
     + (if r_state replica = ''ONLINE'' then 5 else 0)
     + (if v_preferredNodes v \<noteq> [] \<and> r_node replica \<in> set (v_preferredNodes v) then 2 else 0)
     + (case v_nexus v of
          None \<Rightarrow> 0
        | Some nexus \<Rightarrow> if r_node replica = n_node nexus then 1 else 0)"

text \<open>
  \<^verbatim>\<open>Volume._prioritizeReplicas\<close>: the replicas sorted by falling score.  The sort of the
  model is stable, as \<^verbatim>\<open>Array.sort\<close> is.
\<close>

definition prioritizeReplicas :: "volume \<Rightarrow> replica list" where
  "prioritizeReplicas v = sort_key (\<lambda>r. - scoreReplica v r) (map snd (v_replicas v))"

text \<open>
  What \<^verbatim>\<open>array.splice(start)\<close> leaves in the array: the elements before \<open>start\<close>,
  counted from the end when \<open>start\<close> is negative.
\<close>

definition spliceKeep :: "int \<Rightarrow> 'a list \<Rightarrow> 'a list" where
  "spliceKeep start xs =
     (if start < 0 then take (nat (int (length xs) + start)) xs else take (nat start) xs)"

text \<open>The name of a share protocol, as it is printed in a message.\<close>

fun show_share :: "ShareProtocol \<Rightarrow> string" where
  "show_share REPLICA_NONE = ''REPLICA_NONE''"
| "show_share REPLICA_NVMF = ''REPLICA_NVMF''"
| "show_share REPLICA_ISCSI = ''REPLICA_ISCSI''"

text \<open>
  A replica object is shared by the volume and the list that is being worked on; the
  model writes the new value to the entry of the volume for the node of the replica.
\<close>

definition updateReplica :: "volume \<Rightarrow> replica \<Rightarrow> volume" where
  "updateReplica v replica =
     v\<lparr>v_replicas :=
         map (\<lambda>(nodeName, r). if nodeName = r_node replica then (nodeName, replica)
                               else (nodeName, r))
           (v_replicas v)\<rparr>"

text \<open>
  Modelled from the spec: the effect of \<^verbatim>\<open>replica.setShare\<close> of \<^verbatim>\<open>replica.js\<close>,
  which is not among the sources.  The spec: "Replica exposes \<open>setShare(share)\<close>; the new
  URI is derived from the reply."
\<close>

definition shareSet :: "replica \<Rightarrow> ShareProtocol \<Rightarrow> string \<Rightarrow> replica" where
  "shareSet replica share uri = replica\<lparr>r_share := share, r_uri := uri\<rparr>"

text \<open>
  The loop of \<^verbatim>\<open>_ensureReplicaShareProtocols\<close> over the replicas of the nexus.
  \<open>done\<close> are the replicas already seen, as they are now.
\<close>

fun shareLoop ::
  "'w nodes \<Rightarrow> string \<Rightarrow> replica list \<Rightarrow> replica list \<Rightarrow> volume \<Rightarrow> 'w sys
     \<Rightarrow> (error + replica list) \<times> volume \<times> 'w sys" where
  "shareLoop env nexusNode [] done v s = (Inr done, v, s)"
| "shareLoop env nexusNode (replica # rest) done v s =
     (let local = (r_node replica = nexusNode);
          share = (if local \<and> r_share replica \<noteq> REPLICA_NONE then Some REPLICA_NONE
                   else if \<not> local \<and> r_share replica = REPLICA_NONE then Some REPLICA_NVMF
                   else None)
      in case share of
           None \<Rightarrow> shareLoop env nexusNode rest (done @ [replica]) v s
         | Some sh \<Rightarrow>
            (case callSetShare env replica sh s of
               (Inl err, s') \<Rightarrow>
                 (Inl (GrpcError INTERNAL
                         (''Failed to set share pcol to '' @ show_share sh @ '' for replica \"''
                          @ r_uuid replica @ ''@'' @ r_pool replica @ ''\": ''
                          @ errToString err)), v, s')
             | (Inr uri, s') \<Rightarrow>
                 (let replica' = shareSet replica sh uri
                  in shareLoop env nexusNode rest (done @ [replica'])
                       (updateReplica v replica') s')))"

text \<open>\<^verbatim>\<open>Volume._ensureReplicaShareProtocols\<close>.\<close>

definition ensureReplicaShareProtocols ::
  "'w nodes \<Rightarrow> volume \<Rightarrow> 'w sys \<Rightarrow> (error + replica list) \<times> volume \<times> 'w sys" where
  "ensureReplicaShareProtocols env v s =
     (let replicaSet = prioritizeReplicas v in
      if replicaSet = []
      then (Inl (GrpcError INTERNAL
                   (''There are no replicas for volume \"'' @ v_uuid v @ ''\"'')), v, s)
      else
        (let kept = spliceKeep (v_replicaCount v) replicaSet in
         case (case v_nexus v of
                 Some nexus \<Rightarrow> Some (n_node nexus)
               | None \<Rightarrow> (case kept of [] \<Rightarrow> None | r # _ \<Rightarrow> Some (r_node r))) of
           None \<Rightarrow> (Inl TypeError, v, s)
         | Some nexusNode \<Rightarrow> shareLoop env nexusNode kept [] v s))"

section \<open>The volume: the nexus\<close>

text \<open>
  Modelled from the spec: the effect of \<^verbatim>\<open>nexus.removeReplica\<close> of \<^verbatim>\<open>nexus.js\<close>,
  which is not among the sources.  The spec: it "is thin over the RPC with local cache
  update on success", the cache being the list \<open>children\<close> of \<open>{uri, state}\<close> pairs.
\<close>

definition childRemoved :: "nexus \<Rightarrow> replica \<Rightarrow> nexus" where
  "childRemoved nexus replica =
     nexus\<lparr>n_children := filter (\<lambda>(uri, st). uri \<noteq> r_uri replica) (n_children nexus)\<rparr>"

text \<open>
  Modelled from the spec: the effect of \<^verbatim>\<open>nexus.addReplica\<close> of \<^verbatim>\<open>nexus.js\<close>, in
  the same way; the node answers with the state of the new child.
\<close>

definition childAdded :: "nexus \<Rightarrow> replica \<Rightarrow> string \<Rightarrow> nexus" where
  "childAdded nexus replica st =
     nexus\<lparr>n_children := n_children nexus @ [(r_uri replica, st)]\<rparr>"

text \<open>
  The first loop of \<^verbatim>\<open>_ensureNexus\<close> for a nexus that exists: the children that
  are not to stay are removed, and the URIs that the nexus has already are taken off
  \<open>newUris\<close>.  A failure to remove a child is logged and nothing more.
\<close>

fun removeLoop ::
  "'w nodes \<Rightarrow> string list \<Rightarrow> string list \<Rightarrow> nexus \<Rightarrow> volume \<Rightarrow> 'w sys
     \<Rightarrow> string list \<times> nexus \<times> volume \<times> 'w sys" where
  "removeLoop env [] newUris nexus v s = (newUris, nexus, v, s)"
| "removeLoop env (uri # oldUris) newUris nexus v s =
     (if uri \<notin> set newUris then
        (case find (\<lambda>r. r_uri r = uri) (map snd (v_replicas v)) of
           None \<Rightarrow> removeLoop env oldUris newUris nexus v s
         | Some replica \<Rightarrow>
            (case callRemoveReplica env nexus replica s of
               (Some err, s') \<Rightarrow> removeLoop env oldUris newUris nexus v s'
             | (None, s') \<Rightarrow>
                 removeLoop env oldUris newUris (childRemoved nexus replica)
                   (nexusModified v (childRemoved nexus replica)) s'))
      else removeLoop env oldUris (remove1 uri newUris) nexus v s)"

text \<open>The second loop: the children that are missing are added; a failure is fatal.\<close>

fun addLoop ::
  "'w nodes \<Rightarrow> string list \<Rightarrow> nexus \<Rightarrow> volume \<Rightarrow> 'w sys
     \<Rightarrow> (error + unit) \<times> volume \<times> 'w sys" where
  "addLoop env [] nexus v s = (Inr (), v, s)"
| "addLoop env (uri # newUris) nexus v s =
     (case find (\<lambda>r. r_uri r = uri) (map snd (v_replicas v)) of
        None \<Rightarrow> addLoop env newUris nexus v s
      | Some replica \<Rightarrow>
         (case callAddReplica env nexus replica s of
            (Inl err, s') \<Rightarrow>
              (Inl (GrpcError INTERNAL
                      (''Failed to add child \"'' @ uri @ ''\" to nexus \"'' @ n_uuid nexus
                       @ ''\": '' @ errToString err)), v, s')
          | (Inr st, s') \<Rightarrow>
              addLoop env newUris (childAdded nexus replica st)
                (nexusModified v (childAdded nexus replica st)) s'))"

text \<open>
  Modelled from the spec: the nexus that \<^verbatim>\<open>node.createNexus\<close> of \<^verbatim>\<open>node.js\<close> gives,
  which is not among the sources.  The spec has the nexus created "on the local
  replica's node", with the uuid of the volume; the node answers with the rest.
\<close>

definition createdNexus :: "volume \<Rightarrow> replica \<Rightarrow> nexus \<Rightarrow> nexus" where
  "createdNexus v localReplica answer =
     answer\<lparr>n_uuid := v_uuid v, n_node := r_node localReplica\<rparr>"

text \<open>
  \<^verbatim>\<open>Volume._ensureNexus(replicas)\<close>.  A new nexus reaches the volume as an event and
  is then assigned to \<^verbatim>\<open>this.nexus\<close>.
\<close>

definition ensureNexus ::
  "'w nodes \<Rightarrow> replica list \<Rightarrow> volume \<Rightarrow> 'w sys \<Rightarrow> (error + unit) \<times> volume \<times> 'w sys" where
  "ensureNexus env replicas v s =
     (case v_nexus v of
        None \<Rightarrow>
         (case find (\<lambda>r. r_share r = REPLICA_NONE) (map snd (v_replicas v)) of
            None \<Rightarrow>
              (Inl (GrpcError INTERNAL
                      ''Cannot create nexus if none of the replicas is local''), v, s)
          | Some localReplica \<Rightarrow>
             (case callCreateNexus env (r_node localReplica) (v_uuid v) (v_size v) replicas s of
                (Inl err, s') \<Rightarrow> (Inl err, v, s')
              | (Inr answer, s') \<Rightarrow>
                 (let nexus = createdNexus v localReplica answer
                  in (Inr (), (nexusCreated v nexus)\<lparr>v_nexus := Some nexus\<rparr>, s'))))
      | Some nexus \<Rightarrow>
         (case removeLoop env (sort (map fst (n_children nexus))) (sort (map r_uri replicas))
                 nexus v s of
            (newUris, nexus', v', s') \<Rightarrow> addLoop env newUris nexus' v' s'))"

section \<open>The volume: ensure\<close>

text \<open>
  The end of \<^verbatim>\<open>ensure\<close>: every replica whose URI is not a child of the nexus is
  destroyed.  The code starts all the calls at once and waits for them with
  \<^verbatim>\<open>Promise.all\<close>; the model makes them one after the other, in the order of the
  replicas, and each is finished when \<^verbatim>\<open>ensure\<close> returns.  A failure is logged and
  nothing more.  A replica that has been destroyed leaves the volume by the event for it.
\<close>

fun destroyAll :: "'w nodes \<Rightarrow> replica list \<Rightarrow> volume \<Rightarrow> 'w sys \<Rightarrow> volume \<times> 'w sys" where
  "destroyAll env [] v s = (v, s)"
| "destroyAll env (replica # rest) v s =
     (case callDestroy env replica s of
        (Some err, s') \<Rightarrow> destroyAll env rest v s'
      | (None, s') \<Rightarrow> destroyAll env rest (replicaDestroyed v replica) s')"

definition trimReplicas ::
  "'w nodes \<Rightarrow> volume \<Rightarrow> 'w sys \<Rightarrow> (error + unit) \<times> volume \<times> 'w sys" where
  "trimReplicas env v s =
     (case v_nexus v of
        None \<Rightarrow> (Inl TypeError, v, s)
      | Some nexus \<Rightarrow>
         (case destroyAll env
                 (filter (\<lambda>r. r_uri r \<notin> set (map fst (n_children nexus)))
                    (map snd (v_replicas v))) v s of
            (v', s') \<Rightarrow> (Inr (), v', s')))"

text \<open>\<^verbatim>\<open>Volume.ensure\<close>.\<close>

definition ensure :: "'w nodes \<Rightarrow> volume \<Rightarrow> 'w sys \<Rightarrow> (error + unit) \<times> volume \<times> 'w sys" where
  "ensure env v s =
     (let newReplicaCount = v_replicaCount v - int (length (v_replicas v)) in
      case (if newReplicaCount > 0 then createReplicas env v newReplicaCount s
            else (Inr (), v, s)) of
        (Inl err, v1, s1) \<Rightarrow> (Inl err, v1, s1)
      | (Inr _, v1, s1) \<Rightarrow>
         (case ensureReplicaShareProtocols env v1 s1 of
            (Inl err, v2, s2) \<Rightarrow> (Inl err, v2, s2)
          | (Inr replicaSet, v2, s2) \<Rightarrow>
             (case ensureNexus env replicaSet v2 s2 of
                (Inl err, v3, s3) \<Rightarrow> (Inl err, v3, s3)
              | (Inr _, v3, s3) \<Rightarrow> trimReplicas env v3 s3)))"

text \<open>
  Of the outcomes of a run of calls (the exception of each, if any): how many succeeded,
  and the exceptions of those that failed, in their order.
\<close>

definition successes :: "error option list \<Rightarrow> int" where
  "successes outs = int (length (filter (\<lambda>out. out = None) outs))"

definition failures :: "error option list \<Rightarrow> error list" where
  "failures outs = [err. Some err \<leftarrow> outs]"

section \<open>The volume: what ensure works with\<close>

text \<open>
  The replicas of a volume are an object indexed by node name: no name occurs twice, and
  every replica is kept under the name of its node (\<^verbatim>\<open>newReplica\<close> stores it so).
\<close>

definition wfReplicas :: "volume \<Rightarrow> bool" where
  "wfReplicas v =
     (distinct (map fst (v_replicas v))
      \<and> list_all (\<lambda>(nodeName, r). nodeName = r_node r) (v_replicas v))"

text \<open>
  The volume as \<^verbatim>\<open>ensure\<close> has it once the missing replicas are created; the local
  \<^verbatim>\<open>replicaSet\<close> of \<^verbatim>\<open>_ensureReplicaShareProtocols\<close> after its \<^verbatim>\<open>splice\<close>, the
  replicas selected for the nexus, as they are before any share is set; and the local
  \<^verbatim>\<open>nexusNode\<close>, the node of the nexus if there is one and the node of the first
  selected replica otherwise.
\<close>

definition afterReplenish :: "'w nodes \<Rightarrow> volume \<Rightarrow> 'w sys \<Rightarrow> volume" where
  "afterReplenish env v s =
     (if v_replicaCount v - int (length (v_replicas v)) > 0
      then fst (snd (createReplicas env v (v_replicaCount v - int (length (v_replicas v))) s))
      else v)"

definition selectedReplicas :: "'w nodes \<Rightarrow> volume \<Rightarrow> 'w sys \<Rightarrow> replica list" where
  "selectedReplicas env v s =
     spliceKeep (v_replicaCount (afterReplenish env v s))
       (prioritizeReplicas (afterReplenish env v s))"

definition nexusNodeOf :: "'w nodes \<Rightarrow> volume \<Rightarrow> 'w sys \<Rightarrow> string" where
  "nexusNodeOf env v s =
     (case v_nexus (afterReplenish env v s) of
        Some nexus \<Rightarrow> n_node nexus
      | None \<Rightarrow> (case selectedReplicas env v s of [] \<Rightarrow> [] | r # _ \<Rightarrow> r_node r))"



text \<open>
  The strings the group of \<^verbatim>\<open>PVC_RE\<close> stands for, written out: five runs of
  8, 4, 4, 4 and 12 lower-case hexadecimal digits, separated by \<^verbatim>\<open>-\<close>.
\<close>

definition isUuid :: "string \<Rightarrow> bool" where
  "isUuid g = (\<exists>a b c d e. g = a @ ''-'' @ b @ ''-'' @ c @ ''-'' @ d @ ''-'' @ e
       \<and> length a = 8 \<and> length b = 4 \<and> length c = 4 \<and> length d = 4 \<and> length e = 12
       \<and> list_all isHex (a @ b @ c @ d @ e))"

section \<open>Concrete objects\<close>

text \<open>
  The request of the create-volume scenario: the name
  \<^verbatim>\<open>pvc-753b391c-9b04-4ce3-9c74-9d949152e547\<close>, 64 bytes, two replicas.  The
  commander of the example records the uuid it is called with and answers with a nexus
  on \<^verbatim>\<open>node1\<close>.
\<close>

definition exampleNexus :: "string \<Rightarrow> int \<Rightarrow> nexus" where
  "exampleNexus uuid sz =
     \<lparr>n_ref = 1, n_uuid = uuid, n_node = ''node1'', n_size = sz, n_state = ''NEXUS_ONLINE'',
      n_children = [(''bdev:///'' @ uuid, ''CHILD_ONLINE'')]\<rparr>"




definition exampleVolume :: volume where
  "exampleVolume =
     \<lparr>v_uuid = ''753b391c-9b04-4ce3-9c74-9d949152e547'',
      v_replicaCount = 2,
      v_preferredNodes = [],
      v_requiredNodes = [],
      v_requiredBytes = 64,
      v_limitBytes = 0,
      v_size = 0,
      v_nexus = None,
      v_replicas = [],
      v_state = ''PENDING'',
      v_reason = ''The volume is being created''\<rparr>"

text \<open>
  The pools of the capacity scenario, as the unit test of the registry sets them up:
  \<^verbatim>\<open>pool1\<close> on \<^verbatim>\<open>node1\<close>; \<^verbatim>\<open>pool2a\<close>, \<^verbatim>\<open>pool2b\<close> and \<^verbatim>\<open>pool2c\<close> on
  \<^verbatim>\<open>node2\<close>.
\<close>

definition capacityPools :: "pool list" where
  "capacityPools =
     [\<lparr>p_name = ''pool1'', p_node = ''node1'', p_state = POOL_ONLINE,
       p_capacity = 100, p_used = 10, p_replicas = []\<rparr>,
      \<lparr>p_name = ''pool2a'', p_node = ''node2'', p_state = POOL_DEGRADED,
       p_capacity = 100, p_used = 25, p_replicas = []\<rparr>,
      \<lparr>p_name = ''pool2b'', p_node = ''node2'', p_state = POOL_FAULTED,
       p_capacity = 100, p_used = 55, p_replicas = []\<rparr>,
      \<lparr>p_name = ''pool2c'', p_node = ''node2'', p_state = POOL_OFFLINE,
       p_capacity = 100, p_used = 99, p_replicas = []\<rparr>]"

text \<open>
  An operator for the publish scenario: its state is the list of the uuids that are
  published, and publishing one of them again is answered with \<^verbatim>\<open>ALREADY_EXISTS\<close>.
\<close>

definition examplePublishNexus :: "string \<Rightarrow> string list \<Rightarrow> error option \<times> string list" where
  "examplePublishNexus uuid w =
     (if uuid \<in> set w then (Some (GrpcError ALREADY_EXISTS ''nexus is published''), w)
      else (None, w @ [uuid]))"

definition exampleGetNexus :: "string \<Rightarrow> string list \<Rightarrow> nexus option" where
  "exampleGetNexus uuid w =
     (if uuid = ''753b391c-9b04-4ce3-9c74-9d949152e547'' then Some (exampleNexus uuid 64)
      else None)"

definition examplePublish :: controllerPublishVolumeRequest where
  "examplePublish =
     \<lparr>cp_volumeId = ''753b391c-9b04-4ce3-9c74-9d949152e547'',
      cp_nodeId = ''mayastor://node1'',
      cp_volumeCapability = Some \<lparr>accessMode = ''SINGLE_NODE_WRITER''\<rparr>,
      cp_readonly = False\<rparr>"

text \<open>
  The registries of the unit tests of the pool selection.  Every pool of the tests has
  capacity 100.
\<close>

definition testPool :: "string \<Rightarrow> string \<Rightarrow> PoolState \<Rightarrow> int \<Rightarrow> string list \<Rightarrow> pool" where
  "testPool name nodeName st used reps =
     \<lparr>p_name = name, p_node = nodeName, p_state = st, p_capacity = 100, p_used = used,
      p_replicas = reps\<rparr>"

definition testNode :: "string \<Rightarrow> pool list \<Rightarrow> storageNode" where
  "testNode name pools = \<lparr>sn_name = name, sn_pools = pools\<rparr>"

definition registryPreferOnline :: registry where
  "registryPreferOnline =
     [testNode ''node1'' [testPool ''pool1'' ''node1'' POOL_DEGRADED 10 []],
      testNode ''node2'' [testPool ''pool2'' ''node2'' POOL_ONLINE 25 []],
      testNode ''node3'' [testPool ''pool3'' ''node3'' POOL_OFFLINE 0 []]]"

definition registryFewerVolumes :: registry where
  "registryFewerVolumes =
     [testNode ''node1'' [testPool ''pool1'' ''node1'' POOL_ONLINE 10
         [''ba5e39e9-0c0e-4973-8a3a-0dccada09cb1'', ''ba5e39e9-0c0e-4973-8a3a-0dccada09cb2'']],
      testNode ''node2'' [testPool ''pool2'' ''node2'' POOL_ONLINE 25
         [''ba5e39e9-0c0e-4973-8a3a-0dccada09cb1'']]]"

definition registryMoreFree :: registry where
  "registryMoreFree =
     [testNode ''node1'' [testPool ''pool1'' ''node1'' POOL_DEGRADED 10 []],
      testNode ''node2'' [testPool ''pool2'' ''node2'' POOL_DEGRADED 20 []]]"

definition registryNoSuitable :: registry where
  "registryNoSuitable =
     [testNode ''node1'' [testPool ''pool1'' ''node1'' POOL_FAULTED 10 []],
      testNode ''node2'' [testPool ''pool2'' ''node2'' POOL_ONLINE 26 []],
      testNode ''node3'' [testPool ''pool3'' ''node3'' POOL_ONLINE 10 []]]"

definition registrySameNode :: registry where
  "registrySameNode =
     [testNode ''node1'' [testPool ''pool1'' ''node1'' POOL_ONLINE 11 [],
                          testPool ''pool2'' ''node1'' POOL_ONLINE 10 []]]"

definition registryUserNodes :: registry where
  "registryUserNodes =
     [testNode ''node1'' [testPool ''pool1'' ''node1'' POOL_ONLINE 0 []],
      testNode ''node2'' [testPool ''pool2'' ''node2'' POOL_DEGRADED 25 []]]"

text \<open>
  Storage nodes for the scenarios of the volume.  The registry offers the four pools
  \<^verbatim>\<open>pool2\<close> (online, \<^verbatim>\<open>node2\<close>, 75 bytes free), \<^verbatim>\<open>pool1\<close> (degraded, \<^verbatim>\<open>node1\<close>,
  90 bytes free), \<^verbatim>\<open>pool3\<close> (online, \<^verbatim>\<open>node3\<close>, 80 bytes free) and \<^verbatim>\<open>pool4\<close>
  (degraded, \<^verbatim>\<open>node4\<close>, 70 bytes free), in this order.  A replica cannot be created
  on a degraded pool; every other call succeeds.
\<close>

definition examplePools :: "pool list" where
  "examplePools =
     [\<lparr>p_name = ''pool2'', p_node = ''node2'', p_state = POOL_ONLINE,
       p_capacity = 100, p_used = 25, p_replicas = []\<rparr>,
      \<lparr>p_name = ''pool1'', p_node = ''node1'', p_state = POOL_DEGRADED,
       p_capacity = 100, p_used = 10, p_replicas = []\<rparr>,
      \<lparr>p_name = ''pool3'', p_node = ''node3'', p_state = POOL_ONLINE,
       p_capacity = 100, p_used = 20, p_replicas = []\<rparr>,
      \<lparr>p_name = ''pool4'', p_node = ''node4'', p_state = POOL_DEGRADED,
       p_capacity = 100, p_used = 30, p_replicas = []\<rparr>]"

definition exampleReplica :: "string \<Rightarrow> string \<Rightarrow> ShareProtocol \<Rightarrow> replica" where
  "exampleReplica nodeName poolName share =
     \<lparr>r_ref = of_char (last nodeName),
      r_uuid = ''753b391c-9b04-4ce3-9c74-9d949152e547'',
      r_node = nodeName, r_pool = poolName, r_size = 64, r_share = share,
      r_uri = (case share of
                 REPLICA_NONE \<Rightarrow> ''bdev:///''
               | REPLICA_NVMF \<Rightarrow> ''nvmf://'' @ nodeName @ ''/''
               | REPLICA_ISCSI \<Rightarrow> ''iscsi://'' @ nodeName @ ''/'')
              @ ''753b391c-9b04-4ce3-9c74-9d949152e547'',
      r_state = ''ONLINE''\<rparr>"

definition exampleNodes :: "unit nodes" where
  "exampleNodes =
     \<lparr>registryChoosePools = (\<lambda>requiredBytes mustNodes shouldNodes w. examplePools),
      poolCreateReplica = (\<lambda>pool uuid sz w.
         if p_state pool = POOL_DEGRADED
         then (Inl (GrpcError INTERNAL (''pool '' @ p_name pool @ '' is degraded'')), w)
         else (Inr ((exampleReplica (p_node pool) (p_name pool) REPLICA_NONE)
                      \<lparr>r_uuid := uuid, r_size := sz\<rparr>), w)),
      replicaSetShare = (\<lambda>replica share w.
         (Inr (r_uri (exampleReplica (r_node replica) (r_pool replica) share)), w)),
      nodeCreateNexus = (\<lambda>nodeName uuid sz replicas w.
         (Inr \<lparr>n_ref = 1, n_uuid = uuid, n_node = nodeName, n_size = sz,
               n_state = ''NEXUS_ONLINE'',
               n_children = map (\<lambda>r. (r_uri r, ''CHILD_ONLINE'')) replicas\<rparr>, w)),
      nexusRemoveReplica = (\<lambda>nexus replica w. (None, w)),
      nexusAddReplica = (\<lambda>nexus replica w. (Inr ''CHILD_ONLINE'', w)),
      replicaDestroy = (\<lambda>replica w. (None, w))\<rparr>"

definition startSys :: "unit sys" where
  "startSys = \<lparr>world = (), rpcs = []\<rparr>"


text \<open>
  A volume of one replica without nexus that has two replicas, neither of them shared:
  an online one on \<^verbatim>\<open>node2\<close> and a degraded one on \<^verbatim>\<open>node3\<close>.
\<close>

definition excessVolume :: volume where
  "excessVolume =
     exampleVolume
       \<lparr>v_replicaCount := 1,
        v_size := 64,
        v_replicas :=
          [(''node2'', exampleReplica ''node2'' ''pool2'' REPLICA_NONE),
           (''node3'', (exampleReplica ''node3'' ''pool3'' REPLICA_NONE)
                          \<lparr>r_state := ''DEGRADED''\<rparr>)]\<rparr>"

section \<open>Properties of the check for readiness\<close>

lemma checkReady_not_ready:
  "\<not> ready \<Longrightarrow>
     checkReady ready method w
       = (Inl (GrpcError UNAVAILABLE ''Not ready for serving requests''), w)"
  by (simp add: checkReady_def)

lemma checkReady_ready: "ready \<Longrightarrow> checkReady ready method w = method w"
  by (simp add: checkReady_def)

section \<open>Properties of the nexus event handlers\<close>

lemma newNexus_twice_ignored:
  "n_uuid nx = v_uuid v \<Longrightarrow> v_nexus v = Some cur \<Longrightarrow> newNexus v nx = Inr v"
  by (simp add: newNexus_def)

lemma modNexus_without_nexus_ignored:
  "n_uuid nx = v_uuid v \<Longrightarrow> v_nexus v = None \<Longrightarrow> modNexus v nx = Inr v"
  by (simp add: modNexus_def)

lemma delNexus_without_nexus_ignored:
  "n_uuid nx = v_uuid v \<Longrightarrow> v_nexus v = None \<Longrightarrow> delNexus v nx = Inr v"
  by (simp add: delNexus_def)

text \<open>
  Claim C10.  The derived state of the volume mirrors its nexus in every nexus event
  handler.  When a nexus of the volume's uuid is attached to a volume that has none
  (\<^verbatim>\<open>newNexus\<close>), or the nexus the volume holds is modified (\<^verbatim>\<open>modNexus\<close>), the handler
  succeeds, the volume holds that nexus, its state is the state of the nexus and its
  reason is the empty string.  When the nexus the volume holds is deleted
  (\<^verbatim>\<open>delNexus\<close>), the handler succeeds, the volume has no nexus, its state is
  \<^verbatim>\<open>PENDING\<close> and its reason is \<^verbatim>\<open>The volume is missing nexus\<close>.
\<close>

theorem nexus_handlers_mirror_state:
  assumes "n_uuid nx = v_uuid v"
  shows "(v_nexus v = None \<longrightarrow>
            (\<exists>v'. newNexus v nx = Inr v' \<and> v_nexus v' = Some nx
                 \<and> v_state v' = n_state nx \<and> v_reason v' = ''''))
       \<and> (\<forall>cur. v_nexus v = Some cur \<and> n_ref cur = n_ref nx \<longrightarrow>
            (\<exists>v'. modNexus v nx = Inr v' \<and> v_nexus v' = Some nx
                 \<and> v_state v' = n_state nx \<and> v_reason v' = ''''))
       \<and> (\<forall>cur. v_nexus v = Some cur \<and> n_ref cur = n_ref nx \<longrightarrow>
            (\<exists>v'. delNexus v nx = Inr v' \<and> v_nexus v' = None
                 \<and> v_state v' = ''PENDING''
                 \<and> v_reason v' = ''The volume is missing nexus''))"
  using assms by (simp add: newNexus_def modNexus_def delNexus_def)

theorem nexus_handlers_mirror_state_witness:
  "n_uuid (exampleNexus (v_uuid exampleVolume) 64) = v_uuid exampleVolume
   \<and> v_nexus exampleVolume = None
   \<and> (\<exists>v'. newNexus exampleVolume (exampleNexus (v_uuid exampleVolume) 64) = Inr v'
          \<and> v_nexus v' = Some (exampleNexus (v_uuid exampleVolume) 64)
          \<and> v_state v' = ''NEXUS_ONLINE'' \<and> v_reason v' = '''')
   \<and> (\<exists>v'. modNexus (exampleVolume\<lparr>v_nexus := Some (exampleNexus (v_uuid exampleVolume) 64)\<rparr>)
               ((exampleNexus (v_uuid exampleVolume) 64)\<lparr>n_state := ''NEXUS_DEGRADED''\<rparr>) = Inr v'
          \<and> v_state v' = ''NEXUS_DEGRADED'' \<and> v_reason v' = '''')
   \<and> (\<exists>v'. delNexus (exampleVolume\<lparr>v_nexus := Some (exampleNexus (v_uuid exampleVolume) 64)\<rparr>)
               ((exampleNexus (v_uuid exampleVolume) 64)\<lparr>n_state := ''NEXUS_DEGRADED''\<rparr>) = Inr v'
          \<and> v_nexus v' = None \<and> v_state v' = ''PENDING''
          \<and> v_reason v' = ''The volume is missing nexus'')"
  using nexus_handlers_mirror_state
          [of "exampleNexus (v_uuid exampleVolume) 64" exampleVolume]
        nexus_handlers_mirror_state
          [of "(exampleNexus (v_uuid exampleVolume) 64)\<lparr>n_state := ''NEXUS_DEGRADED''\<rparr>"
              "exampleVolume\<lparr>v_nexus := Some (exampleNexus (v_uuid exampleVolume) 64)\<rparr>"]
  by (simp add: exampleNexus_def exampleVolume_def newNexus_def modNexus_def delNexus_def)

section \<open>The matcher finds the pattern of PVC_RE\<close>

lemma hexRun_Some_iff:
  "hexRun n s = Some r \<longleftrightarrow> (\<exists>h. s = h @ r \<and> length h = n \<and> list_all isHex h)"
proof (induction n s rule: hexRun.induct)
  case (1 s)
  then show ?case by auto
next
  case (2 n)
  then show ?case by auto
next
  case (3 n c cs)
  show ?case
  proof (cases "isHex c")
    case True
    have "(\<exists>h. c # cs = h @ r \<and> length h = Suc n \<and> list_all isHex h)
          \<longleftrightarrow> (\<exists>h'. cs = h' @ r \<and> length h' = n \<and> list_all isHex h')"
    proof
      assume "\<exists>h. c # cs = h @ r \<and> length h = Suc n \<and> list_all isHex h"
      then obtain h where h: "c # cs = h @ r" "length h = Suc n" "list_all isHex h" by blast
      then obtain x h' where "h = x # h'" by (cases h) auto
      with h show "\<exists>h'. cs = h' @ r \<and> length h' = n \<and> list_all isHex h'" by auto
    next
      assume "\<exists>h'. cs = h' @ r \<and> length h' = n \<and> list_all isHex h'"
      then obtain h' where "cs = h' @ r" "length h' = n" "list_all isHex h'" by blast
      with True have "c # cs = (c # h') @ r \<and> length (c # h') = Suc n \<and> list_all isHex (c # h')"
        by simp
      then show "\<exists>h. c # cs = h @ r \<and> length h = Suc n \<and> list_all isHex h" by blast
    qed
    with True 3 show ?thesis by simp
  next
    case False
    have "\<not> (\<exists>h. c # cs = h @ r \<and> length h = Suc n \<and> list_all isHex h)"
    proof
      assume "\<exists>h. c # cs = h @ r \<and> length h = Suc n \<and> list_all isHex h"
      then obtain h where h: "c # cs = h @ r" "length h = Suc n" "list_all isHex h" by blast
      then obtain x h' where "h = x # h'" by (cases h) auto
      with h False show False by auto
    qed
    with False show ?thesis by simp
  qed
qed

lemma lit_Some_iff: "lit l s = Some r \<longleftrightarrow> s = l @ r"
  by (induction l s rule: lit.induct) auto

lemma uuidGroup_Some_iff:
  "uuidGroup s = Some g \<longleftrightarrow> (\<exists>r. s = g @ r \<and> isUuid g)"
proof
  assume "uuidGroup s = Some g"
  then obtain s1 s2 s3 s4 s5 s6 s7 s8 s9 where
    st: "hexRun 8 s = Some s1" "lit ''-'' s1 = Some s2" "hexRun 4 s2 = Some s3"
      "lit ''-'' s3 = Some s4" "hexRun 4 s4 = Some s5" "lit ''-'' s5 = Some s6"
      "hexRun 4 s6 = Some s7" "lit ''-'' s7 = Some s8" "hexRun 12 s8 = Some s9"
    and g: "g = take 36 s"
    by (auto simp: uuidGroup_def Option.bind_eq_Some_conv)
  from st obtain a b c d e where
    "s = a @ s1" "length a = 8" "list_all isHex a"
    "s1 = ''-'' @ s2"
    "s2 = b @ s3" "length b = 4" "list_all isHex b"
    "s3 = ''-'' @ s4"
    "s4 = c @ s5" "length c = 4" "list_all isHex c"
    "s5 = ''-'' @ s6"
    "s6 = d @ s7" "length d = 4" "list_all isHex d"
    "s7 = ''-'' @ s8"
    "s8 = e @ s9" "length e = 12" "list_all isHex e"
    unfolding hexRun_Some_iff lit_Some_iff by blast
  then have s: "s = (a @ ''-'' @ b @ ''-'' @ c @ ''-'' @ d @ ''-'' @ e) @ s9"
    and len: "length (a @ ''-'' @ b @ ''-'' @ c @ ''-'' @ d @ ''-'' @ e) = 36"
    and l: "length a = 8" "length b = 4" "length c = 4" "length d = 4" "length e = 12"
    and hx: "list_all isHex (a @ b @ c @ d @ e)"
    by auto
  have u: "isUuid (a @ ''-'' @ b @ ''-'' @ c @ ''-'' @ d @ ''-'' @ e)"
    unfolding isUuid_def using l hx by blast
  from s len g have "g = a @ ''-'' @ b @ ''-'' @ c @ ''-'' @ d @ ''-'' @ e"
    by (metis append_eq_conv_conj)
  with s u show "\<exists>r. s = g @ r \<and> isUuid g" by blast
next
  assume "\<exists>r. s = g @ r \<and> isUuid g"
  then obtain r a b c d e where s: "s = g @ r"
    and g: "g = a @ ''-'' @ b @ ''-'' @ c @ ''-'' @ d @ ''-'' @ e"
    and l: "length a = 8" "length b = 4" "length c = 4" "length d = 4" "length e = 12"
    and h: "list_all isHex a" "list_all isHex b" "list_all isHex c" "list_all isHex d"
           "list_all isHex e"
    unfolding isUuid_def by auto
  have 1: "hexRun 8 s = Some (''-'' @ b @ ''-'' @ c @ ''-'' @ d @ ''-'' @ e @ r)"
    unfolding hexRun_Some_iff using s g l h by auto
  have 2: "hexRun 4 (b @ ''-'' @ c @ ''-'' @ d @ ''-'' @ e @ r) = Some (''-'' @ c @ ''-'' @ d @ ''-'' @ e @ r)"
    unfolding hexRun_Some_iff using l h by auto
  have 3: "hexRun 4 (c @ ''-'' @ d @ ''-'' @ e @ r) = Some (''-'' @ d @ ''-'' @ e @ r)"
    unfolding hexRun_Some_iff using l h by auto
  have 4: "hexRun 4 (d @ ''-'' @ e @ r) = Some (''-'' @ e @ r)"
    unfolding hexRun_Some_iff using l h by auto
  have 5: "hexRun 12 (e @ r) = Some r"
    unfolding hexRun_Some_iff using l h by auto
  have 6: "take 36 s = g" using s g l by simp
  show "uuidGroup s = Some g"
    using 1 2 3 4 5 6 by (simp add: uuidGroup_def)
qed

lemma PVC_RE_at_Some_iff:
  "PVC_RE_at s = Some g \<longleftrightarrow> (\<exists>r. s = ''pvc-'' @ g @ r \<and> isUuid g)"
  unfolding PVC_RE_at_def Option.bind_eq_Some_conv lit_Some_iff uuidGroup_Some_iff
  by auto

lemma PVC_RE_match_Some:
  "PVC_RE_match s = Some g \<Longrightarrow> \<exists>pre post. s = pre @ ''pvc-'' @ g @ post \<and> isUuid g"
proof (induction s)
  case Nil
  then show ?case by (simp add: PVC_RE_at_Some_iff)
next
  case (Cons c cs)
  show ?case
  proof (cases "PVC_RE_at (c # cs)")
    case None
    with Cons obtain pre post where "cs = pre @ ''pvc-'' @ g @ post" "isUuid g" by auto
    then have "c # cs = (c # pre) @ ''pvc-'' @ g @ post \<and> isUuid g" by simp
    then show ?thesis by blast
  next
    case (Some g')
    with Cons have "PVC_RE_at (c # cs) = Some g" by simp
    then obtain r where "c # cs = [] @ ''pvc-'' @ g @ r \<and> isUuid g"
      unfolding PVC_RE_at_Some_iff by auto
    then show ?thesis by blast
  qed
qed

lemma PVC_RE_match_None_iff:
  "PVC_RE_match s = None \<longleftrightarrow> (\<forall>pre g post. s = pre @ ''pvc-'' @ g @ post \<longrightarrow> \<not> isUuid g)"
proof (induction s)
  case Nil
  have "PVC_RE_at [] = None" by (simp add: PVC_RE_at_def)
  moreover have "\<And>g. isUuid g \<Longrightarrow> g \<noteq> []" by (auto simp: isUuid_def)
  ultimately show ?case by auto
next
  case (Cons c cs)
  show ?case
  proof
    assume n: "PVC_RE_match (c # cs) = None"
    then have at: "PVC_RE_at (c # cs) = None" and rest: "PVC_RE_match cs = None"
      by (auto split: option.splits)
    show "\<forall>pre g post. c # cs = pre @ ''pvc-'' @ g @ post \<longrightarrow> \<not> isUuid g"
    proof (intro allI impI)
      fix pre g post assume eq: "c # cs = pre @ ''pvc-'' @ g @ post"
      show "\<not> isUuid g"
      proof (cases pre)
        case Nil
        with eq at show ?thesis
          using PVC_RE_at_Some_iff[of "c # cs" g] by auto
      next
        case (Cons x pre')
        with eq have "cs = pre' @ ''pvc-'' @ g @ post" by simp
        with rest Cons.IH show ?thesis by blast
      qed
    qed
  next
    assume a: "\<forall>pre g post. c # cs = pre @ ''pvc-'' @ g @ post \<longrightarrow> \<not> isUuid g"
    have at: "PVC_RE_at (c # cs) = None"
    proof (cases "PVC_RE_at (c # cs)")
      case (Some g)
      then obtain r where "c # cs = [] @ ''pvc-'' @ g @ r" "isUuid g"
        unfolding PVC_RE_at_Some_iff by auto
      with a show ?thesis by blast
    qed simp
    have "\<forall>pre g post. cs = pre @ ''pvc-'' @ g @ post \<longrightarrow> \<not> isUuid g"
    proof (intro allI impI)
      fix pre g post assume "cs = pre @ ''pvc-'' @ g @ post"
      then have "c # cs = (c # pre) @ ''pvc-'' @ g @ post" by simp
      with a show "\<not> isUuid g" by blast
    qed
    with Cons.IH have "PVC_RE_match cs = None" by blast
    with at show "PVC_RE_match (c # cs) = None" by simp
  qed
qed

section \<open>Properties of CreateVolume\<close>



lemma example_name_embedded:
  "PVC_RE_match ''xpvc-753b391c-9b04-4ce3-9c74-9d949152e547-tail''
     = Some ''753b391c-9b04-4ce3-9c74-9d949152e547''"
  by code_simp





section \<open>Properties of ControllerPublishVolume\<close>

lemma parseMayastorNodeId_ok:
  "parseMayastorNodeId (''mayastor://'' @ name) = Inr \<lparr>node = name\<rparr>"
  using lit_Some_iff[of "''mayastor://''" "''mayastor://'' @ name" name]
  by (simp add: parseMayastorNodeId_def)

lemma parseMayastorNodeId_rejects:
  assumes "\<forall>name. s \<noteq> ''mayastor://'' @ name"
  shows "\<exists>err. parseMayastorNodeId s = Inl err"
proof (cases "lit ''mayastor://'' s")
  case None
  then show ?thesis by (simp add: parseMayastorNodeId_def)
next
  case (Some r)
  then have "s = ''mayastor://'' @ r" by (simp only: lit_Some_iff)
  with assms show ?thesis by blast
qed

lemma examplePublish_parse:
  "parseMayastorNodeId (cp_nodeId examplePublish) = Inr \<lparr>node = ''node1''\<rparr>"
  by (simp add: parseMayastorNodeId_def examplePublish_def)

lemma examplePublish_first:
  "controllerPublishVolume exampleGetNexus examplePublishNexus examplePublish []
     = (Inr (), [''753b391c-9b04-4ce3-9c74-9d949152e547''])"
  using examplePublish_parse
  by (simp add: controllerPublishVolume_def exampleGetNexus_def examplePublishNexus_def
        examplePublish_def exampleNexus_def checkCapabilities_def)

lemma examplePublish_second:
  "controllerPublishVolume exampleGetNexus examplePublishNexus examplePublish
      [''753b391c-9b04-4ce3-9c74-9d949152e547'']
     = (Inr (), [''753b391c-9b04-4ce3-9c74-9d949152e547''])"
  using examplePublish_parse
  by (simp add: controllerPublishVolume_def exampleGetNexus_def examplePublishNexus_def
        examplePublish_def exampleNexus_def checkCapabilities_def)

text \<open>
  Claim C8.  For a ControllerPublishVolume request on a volume that exists (the operator
  has a nexus for its id):
  a \<^verbatim>\<open>nodeId\<close> that is not of the form \<^verbatim>\<open>mayastor://<node-name>\<close> is rejected;
  a node name that differs from the node of the nexus fails with \<^verbatim>\<open>INVALID_ARGUMENT\<close>;
  \<^verbatim>\<open>readonly = true\<close> fails, with \<^verbatim>\<open>INVALID_ARGUMENT\<close> when the node id is well
  formed; none of these calls the operator.  On the node of the nexus, with the supported
  capability, the call returns success when the publish of the operator succeeds and
  also when it fails with \<^verbatim>\<open>ALREADY_EXISTS\<close>, so the call can be repeated.
\<close>

theorem controllerPublishVolume_checks:
  assumes "getNexus (cp_volumeId args) w = Some nexus"
  shows "((\<forall>name. cp_nodeId args \<noteq> ''mayastor://'' @ name) \<longrightarrow>
            (\<exists>err. controllerPublishVolume getNexus publishNexus args w = (Inl err, w)))
       \<and> (\<forall>name. cp_nodeId args = ''mayastor://'' @ name \<and> name \<noteq> n_node nexus \<longrightarrow>
            (\<exists>msg. controllerPublishVolume getNexus publishNexus args w
                     = (Inl (GrpcError INVALID_ARGUMENT msg), w)))
       \<and> (cp_readonly args \<longrightarrow>
            (\<exists>err. controllerPublishVolume getNexus publishNexus args w = (Inl err, w))
            \<and> ((\<exists>name. cp_nodeId args = ''mayastor://'' @ name) \<longrightarrow>
                 (\<exists>msg. controllerPublishVolume getNexus publishNexus args w
                          = (Inl (GrpcError INVALID_ARGUMENT msg), w))))
       \<and> (\<forall>w' err. cp_nodeId args = ''mayastor://'' @ n_node nexus \<and> \<not> cp_readonly args
             \<and> cp_volumeCapability args = Some \<lparr>accessMode = ''SINGLE_NODE_WRITER''\<rparr>
             \<and> publishNexus (n_uuid nexus) w = (err, w')
             \<and> (err = None \<or> (\<exists>msg. err = Some (GrpcError ALREADY_EXISTS msg))) \<longrightarrow>
            controllerPublishVolume getNexus publishNexus args w = (Inr (), w'))"
proof (intro conjI impI allI)
  assume "\<forall>name. cp_nodeId args \<noteq> ''mayastor://'' @ name"
  then obtain err where "parseMayastorNodeId (cp_nodeId args) = Inl err"
    using parseMayastorNodeId_rejects by blast
  with assms show "\<exists>err. controllerPublishVolume getNexus publishNexus args w = (Inl err, w)"
    by (simp add: controllerPublishVolume_def)
next
  fix name assume a: "cp_nodeId args = ''mayastor://'' @ name \<and> name \<noteq> n_node nexus"
  then have "parseMayastorNodeId (cp_nodeId args) = Inr \<lparr>node = name\<rparr>"
    by (simp only: parseMayastorNodeId_ok)
  with assms a show "\<exists>msg. controllerPublishVolume getNexus publishNexus args w
                     = (Inl (GrpcError INVALID_ARGUMENT msg), w)"
    by (simp add: controllerPublishVolume_def)
next
  assume ro: "cp_readonly args"
  show "\<exists>err. controllerPublishVolume getNexus publishNexus args w = (Inl err, w)"
    using assms ro by (auto simp: controllerPublishVolume_def split: sum.splits)
next
  assume ro: "cp_readonly args" and "\<exists>name. cp_nodeId args = ''mayastor://'' @ name"
  then obtain name where "cp_nodeId args = ''mayastor://'' @ name" by blast
  then have "parseMayastorNodeId (cp_nodeId args) = Inr \<lparr>node = name\<rparr>"
    by (simp only: parseMayastorNodeId_ok)
  with assms ro show "\<exists>msg. controllerPublishVolume getNexus publishNexus args w
                     = (Inl (GrpcError INVALID_ARGUMENT msg), w)"
    by (simp add: controllerPublishVolume_def)
next
  fix w' err
  assume a: "cp_nodeId args = ''mayastor://'' @ n_node nexus \<and> \<not> cp_readonly args
             \<and> cp_volumeCapability args = Some \<lparr>accessMode = ''SINGLE_NODE_WRITER''\<rparr>
             \<and> publishNexus (n_uuid nexus) w = (err, w')
             \<and> (err = None \<or> (\<exists>msg. err = Some (GrpcError ALREADY_EXISTS msg)))"
  then have "parseMayastorNodeId (cp_nodeId args) = Inr \<lparr>node = n_node nexus\<rparr>"
    by (simp only: parseMayastorNodeId_ok)
  with assms a show "controllerPublishVolume getNexus publishNexus args w = (Inr (), w')"
    by (auto simp: controllerPublishVolume_def checkCapabilities_def)
qed

theorem controllerPublishVolume_checks_witness:
  "exampleGetNexus (cp_volumeId examplePublish) [] = Some (exampleNexus (cp_volumeId examplePublish) 64)
   \<and> (\<forall>name. cp_nodeId (examplePublish\<lparr>cp_nodeId := ''node1''\<rparr>) \<noteq> ''mayastor://'' @ name)
   \<and> (\<exists>err. controllerPublishVolume exampleGetNexus examplePublishNexus
                (examplePublish\<lparr>cp_nodeId := ''node1''\<rparr>) [] = (Inl err, []))
   \<and> (\<exists>msg. controllerPublishVolume exampleGetNexus examplePublishNexus
                (examplePublish\<lparr>cp_nodeId := ''mayastor://node2''\<rparr>) []
              = (Inl (GrpcError INVALID_ARGUMENT msg), []))
   \<and> (\<exists>msg. controllerPublishVolume exampleGetNexus examplePublishNexus
                (examplePublish\<lparr>cp_readonly := True\<rparr>) []
              = (Inl (GrpcError INVALID_ARGUMENT msg), []))
   \<and> controllerPublishVolume exampleGetNexus examplePublishNexus examplePublish []
        = (Inr (), [''753b391c-9b04-4ce3-9c74-9d949152e547''])
   \<and> examplePublishNexus ''753b391c-9b04-4ce3-9c74-9d949152e547''
          [''753b391c-9b04-4ce3-9c74-9d949152e547'']
        = (Some (GrpcError ALREADY_EXISTS ''nexus is published''),
           [''753b391c-9b04-4ce3-9c74-9d949152e547''])
   \<and> controllerPublishVolume exampleGetNexus examplePublishNexus examplePublish
          [''753b391c-9b04-4ce3-9c74-9d949152e547'']
        = (Inr (), [''753b391c-9b04-4ce3-9c74-9d949152e547''])"
  using controllerPublishVolume_checks
          [of exampleGetNexus "examplePublish\<lparr>cp_nodeId := ''node1''\<rparr>" "[]"
              "exampleNexus (cp_volumeId examplePublish) 64" examplePublishNexus]
        controllerPublishVolume_checks
          [of exampleGetNexus "examplePublish\<lparr>cp_nodeId := ''mayastor://node2''\<rparr>" "[]"
              "exampleNexus (cp_volumeId examplePublish) 64" examplePublishNexus]
        controllerPublishVolume_checks
          [of exampleGetNexus "examplePublish\<lparr>cp_readonly := True\<rparr>" "[]"
              "exampleNexus (cp_volumeId examplePublish) 64" examplePublishNexus]
        controllerPublishVolume_checks
          [of exampleGetNexus examplePublish "[''753b391c-9b04-4ce3-9c74-9d949152e547'']"
              "exampleNexus (cp_volumeId examplePublish) 64" examplePublishNexus]
        examplePublish_first examplePublish_second
  by (simp add: exampleGetNexus_def examplePublish_def examplePublishNexus_def exampleNexus_def
        controllerPublishVolume_def parseMayastorNodeId_def checkCapabilities_def)

section \<open>Properties of GetCapacity\<close>

lemma totalCapacityReduce_sum:
  "totalCapacityReduce acc ps = acc + (\<Sum>p \<leftarrow> ps. p_capacity p - p_used p)"
  by (induction ps arbitrary: acc) auto

lemma getCapacity_total:
  "gc_volumeCapabilities args = None \<Longrightarrow>
   (case gc_accessibleTopology args of None \<Rightarrow> None | Some segs \<Rightarrow> hostnameSegment segs) = None \<Longrightarrow>
   getCapacity syncNode poolsGet args w
     = (Inr (accessibleCapacity (poolsGet (syncNode None w))), syncNode None w)"
  by (simp add: getCapacity_def totalCapacityReduce_sum accessibleCapacity_def Let_def)

lemma nodeCapacityReduce_all_accessible:
  "list_all isPoolAccessible ps \<Longrightarrow>
     nodeCapacityReduce acc ps = acc + accessibleCapacity ps"
  by (induction ps arbitrary: acc) (auto simp: accessibleCapacity_def)

lemma getCapacity_total_example:
  "getCapacity (\<lambda>n w. w) (\<lambda>w. w)
      \<lparr>gc_volumeCapabilities = None, gc_accessibleTopology = None\<rparr> capacityPools
     = (Inr 165, capacityPools)"
  by (simp add: getCapacity_def capacityPools_def isPoolAccessible_def)

text \<open>
  Claim C6.  The capacity of a node is to be the sum of \<open>capacity - used\<close> over the
  accessible pools of the node, wherever the pools that are not accessible stand in the
  list.  The code does not do so: for the pools of the capacity scenario, where the
  degraded \<^verbatim>\<open>pool2a\<close> of \<^verbatim>\<open>node2\<close> is followed by the faulted \<^verbatim>\<open>pool2b\<close>, the
  reduction is set back to 0 and GetCapacity for \<^verbatim>\<open>node2\<close> answers 0, while the sum
  over the accessible pools of \<^verbatim>\<open>node2\<close> is 75.
\<close>

theorem getCapacity_node_resets_sum:
  "getCapacity (\<lambda>n w. w) (\<lambda>w. w)
      \<lparr>gc_volumeCapabilities = None,
       gc_accessibleTopology = Some [(''kubernetes.io/hostname'', ''node2'')]\<rparr>
      capacityPools
     = (Inr 0, capacityPools)
   \<and> accessibleCapacity (filter (\<lambda>p. p_node p = ''node2'') capacityPools) = 75"
  by (simp add: getCapacity_def capacityPools_def accessibleCapacity_def isPoolAccessible_def)

section \<open>Properties of the choice of pools\<close>

lemmas test_registry_defs =
  testNode_def testPool_def getPool_def isPoolAccessible_def freeBytes_def poolKey_def
  choosePools_def choosePoolsBy_def

lemma onePerNode_subset: "set (onePerNode ps nodes) \<subseteq> set ps"
  by (induction ps arbitrary: nodes) auto

lemma onePerNode_avoids: "p \<in> set (onePerNode ps nodes) \<Longrightarrow> p_node p \<notin> set nodes"
proof (induction ps arbitrary: nodes)
  case Nil
  then show ?case by simp
next
  case (Cons q ps)
  show ?case
  proof (cases "p_node q \<in> set nodes")
    case True
    with Cons show ?thesis by simp
  next
    case False
    with Cons.prems have "p = q \<or> p \<in> set (onePerNode ps (nodes @ [p_node q]))" by simp
    then show ?thesis
    proof
      assume "p = q" with False show ?thesis by simp
    next
      assume "p \<in> set (onePerNode ps (nodes @ [p_node q]))"
      then have "p_node p \<notin> set (nodes @ [p_node q])" by (rule Cons.IH)
      then show ?thesis by simp
    qed
  qed
qed

lemma onePerNode_distinct: "distinct (map p_node (onePerNode ps nodes))"
proof (induction ps arbitrary: nodes)
  case Nil
  show ?case by simp
next
  case (Cons q ps)
  show ?case
  proof (cases "p_node q \<in> set nodes")
    case True
    with Cons show ?thesis by simp
  next
    case False
    have "p_node q \<notin> p_node ` set (onePerNode ps (nodes @ [p_node q]))"
    proof
      assume "p_node q \<in> p_node ` set (onePerNode ps (nodes @ [p_node q]))"
      then obtain p where p: "p \<in> set (onePerNode ps (nodes @ [p_node q]))"
        and eq: "p_node p = p_node q" by auto
      from p have "p_node p \<notin> set (nodes @ [p_node q])" by (rule onePerNode_avoids)
      with eq show False by simp
    qed
    with False Cons.IH[of "nodes @ [p_node q]"] show ?thesis by simp
  qed
qed

lemma onePerNode_sorted:
  "sorted (map key ps) \<Longrightarrow> sorted (map key (onePerNode ps nodes))"
proof (induction ps arbitrary: nodes)
  case Nil
  show ?case by simp
next
  case (Cons q ps)
  then have tl: "sorted (map key ps)" and hd: "\<forall>p \<in> set ps. key q \<le> key p" by auto
  show ?case
  proof (cases "p_node q \<in> set nodes")
    case True
    with Cons.IH[OF tl] show ?thesis by simp
  next
    case False
    have "\<forall>p \<in> set (onePerNode ps (nodes @ [p_node q])). key q \<le> key p"
      using hd onePerNode_subset by blast
    with False Cons.IH[OF tl, of "nodes @ [p_node q]"] show ?thesis by simp
  qed
qed

lemma choosePools_candidates:
  "p \<in> set (choosePools requiredBytes mustNodes shouldNodes reg) \<Longrightarrow>
     p \<in> set (getPool reg) \<and> isPoolAccessible p \<and> requiredBytes \<le> freeBytes p
     \<and> (mustNodes = [] \<or> p_node p \<in> set mustNodes)"
proof -
  assume "p \<in> set (choosePools requiredBytes mustNodes shouldNodes reg)"
  then have "p \<in> set (sort_key (poolKey shouldNodes)
          (filter (\<lambda>p. isPoolAccessible p \<and> requiredBytes \<le> freeBytes p
                       \<and> (mustNodes = [] \<or> p_node p \<in> set mustNodes))
             (getPool reg)))"
    unfolding choosePools_def choosePoolsBy_def using onePerNode_subset by blast
  then show ?thesis by simp
qed

text \<open>
  The model gives what the unit tests of the pool selection expect.
\<close>

lemma test_same_node:
  "choosePools 75 [] [] registrySameNode = [testPool ''pool2'' ''node1'' POOL_ONLINE 10 []]"
  by (simp add: registrySameNode_def test_registry_defs)

lemma test_no_suitable:
  "choosePools 75 [''node1'', ''node2''] [] registryNoSuitable = []"
  by (simp add: registryNoSuitable_def test_registry_defs)

lemma test_requested_node:
  "choosePools 75 [''node2''] [] registryUserNodes
     = [testPool ''pool2'' ''node2'' POOL_DEGRADED 25 []]"
  by (simp add: registryUserNodes_def test_registry_defs)

lemma test_prefer_online:
  "choosePools 75 [] [] registryPreferOnline
     = [testPool ''pool2'' ''node2'' POOL_ONLINE 25 [],
        testPool ''pool1'' ''node1'' POOL_DEGRADED 10 []]"
  by (simp add: registryPreferOnline_def test_registry_defs)

lemma test_fewer_volumes:
  "map p_name (choosePools 75 [] [] registryFewerVolumes) = [''pool2'', ''pool1'']"
  by (simp add: registryFewerVolumes_def test_registry_defs)

lemma test_more_free:
  "map p_name (choosePools 75 [] [] registryMoreFree) = [''pool1'', ''pool2'']"
  by (simp add: registryMoreFree_def test_registry_defs)

lemma test_preferred_node:
  "choosePools 75 [] [''node2''] registryUserNodes
     = [testPool ''pool2'' ''node2'' POOL_DEGRADED 25 [],
        testPool ''pool1'' ''node1'' POOL_ONLINE 0 []]"
  by (simp add: registryUserNodes_def test_registry_defs)

text \<open>
  With the membership in \<open>shouldNodes\<close> as the last component of the key, as the spec
  lists it, the online \<^verbatim>\<open>pool1\<close> would come before the degraded \<^verbatim>\<open>pool2\<close> of the
  preferred node, against what the unit test "should prefer pool on node preferred by
  user" expects.
\<close>

lemma test_preferred_node_should_last:
  "map p_name (choosePoolsBy (poolKeyShouldLast [''node2'']) 75 [] registryUserNodes)
     = [''pool1'', ''pool2'']"
  by (simp add: registryUserNodes_def testNode_def testPool_def getPool_def
        isPoolAccessible_def freeBytes_def poolKeyShouldLast_def choosePoolsBy_def)

text \<open>
  Claim C1.  The pools that \<^verbatim>\<open>choosePools(b, must, should)\<close> returns are on pairwise
  different nodes; each of them has at least \<open>b\<close> free bytes; and if \<open>must\<close> is not
  empty, the node of each of them is a member of \<open>must\<close>.
\<close>

theorem choosePools_one_per_node:
  "distinct (map p_node (choosePools b must should reg))
   \<and> (\<forall>p \<in> set (choosePools b must should reg).
         b \<le> freeBytes p \<and> (must \<noteq> [] \<longrightarrow> p_node p \<in> set must))"
proof
  show "distinct (map p_node (choosePools b must should reg))"
    unfolding choosePools_def choosePoolsBy_def by (rule onePerNode_distinct)
  show "\<forall>p \<in> set (choosePools b must should reg).
         b \<le> freeBytes p \<and> (must \<noteq> [] \<longrightarrow> p_node p \<in> set must)"
    using choosePools_candidates by blast
qed

theorem choosePools_one_per_node_witness:
  "distinct (map p_node (choosePools 75 [] [] registrySameNode))
   \<and> length (choosePools 75 [] [] registrySameNode) = 1
   \<and> choosePools 75 [''node2''] [] registryUserNodes
       = [testPool ''pool2'' ''node2'' POOL_DEGRADED 25 []]
   \<and> 75 \<le> freeBytes (testPool ''pool2'' ''node2'' POOL_DEGRADED 25 [])
   \<and> p_node (testPool ''pool2'' ''node2'' POOL_DEGRADED 25 []) \<in> set [''node2'']"
  using choosePools_one_per_node[of 75 "[]" "[]" registrySameNode]
        choosePools_one_per_node[of 75 "[''node2'']" "[]" registryUserNodes]
        test_same_node test_requested_node
  by simp

text \<open>
  Claim C2 as stated does not hold: with the membership in \<open>shouldNodes\<close> as the last
  component of the key, the result for the registry of the unit test "should prefer pool
  on node preferred by user" (the degraded \<^verbatim>\<open>pool2\<close> on the preferred \<^verbatim>\<open>node2\<close>
  first, the online \<^verbatim>\<open>pool1\<close> second) is not sorted.
\<close>

theorem choosePools_should_last_counterexample:
  "\<not> sorted (map (poolKeyShouldLast [''node2''])
               (choosePools 75 [] [''node2''] registryUserNodes))"
  by (simp add: test_preferred_node poolKeyShouldLast_def testPool_def freeBytes_def)

text \<open>
  Claim C2, amended.  Pools with state \<^verbatim>\<open>POOL_OFFLINE\<close> or \<^verbatim>\<open>POOL_FAULTED\<close> never
  appear in the result of \<^verbatim>\<open>choosePools\<close>, and the result is sorted by the key tuple
  whose first component is the membership of the pool's node in \<open>shouldNodes\<close>, followed
  by online before degraded, then fewer replicas on the pool, then more free bytes.
\<close>

theorem choosePools_excludes_and_sorts:
  "(\<forall>p \<in> set (choosePools b must should reg).
       p_state p \<noteq> POOL_OFFLINE \<and> p_state p \<noteq> POOL_FAULTED)
   \<and> sorted (map (poolKey should) (choosePools b must should reg))"
proof
  show "\<forall>p \<in> set (choosePools b must should reg).
       p_state p \<noteq> POOL_OFFLINE \<and> p_state p \<noteq> POOL_FAULTED"
  proof
    fix p assume "p \<in> set (choosePools b must should reg)"
    then have "isPoolAccessible p" using choosePools_candidates by blast
    then show "p_state p \<noteq> POOL_OFFLINE \<and> p_state p \<noteq> POOL_FAULTED"
      by (auto simp: isPoolAccessible_def)
  qed
  show "sorted (map (poolKey should) (choosePools b must should reg))"
    unfolding choosePools_def choosePoolsBy_def
    by (rule onePerNode_sorted) (rule sorted_sort_key)
qed

theorem choosePools_excludes_and_sorts_witness:
  "choosePools 75 [] [] registryPreferOnline
     = [testPool ''pool2'' ''node2'' POOL_ONLINE 25 [],
        testPool ''pool1'' ''node1'' POOL_DEGRADED 10 []]
   \<and> p_state (testPool ''pool2'' ''node2'' POOL_ONLINE 25 []) \<noteq> POOL_OFFLINE
   \<and> p_state (testPool ''pool1'' ''node1'' POOL_DEGRADED 10 []) \<noteq> POOL_FAULTED
   \<and> sorted (map (poolKey [''node2'']) (choosePools 75 [] [''node2''] registryUserNodes))
   \<and> map p_name (choosePools 75 [] [''node2''] registryUserNodes) = [''pool2'', ''pool1'']"
proof -
  have "map p_name (choosePools 75 [] [''node2''] registryUserNodes) = [''pool2'', ''pool1'']"
    unfolding test_preferred_node by (simp add: testPool_def)
  moreover have "\<forall>p \<in> set [testPool ''pool2'' ''node2'' POOL_ONLINE 25 [],
                            testPool ''pool1'' ''node1'' POOL_DEGRADED 10 []].
                   p_state p \<noteq> POOL_OFFLINE \<and> p_state p \<noteq> POOL_FAULTED"
    using choosePools_excludes_and_sorts[of 75 "[]" "[]" registryPreferOnline]
    unfolding test_prefer_online by blast
  ultimately show ?thesis
    using choosePools_excludes_and_sorts[of 75 "[]" "[''node2'']" registryUserNodes]
          test_prefer_online
    by simp
qed

section \<open>Properties of the creation of replicas\<close>

lemma successes_simps [simp]:
  "successes [] = 0"
  "successes (None # outs) = 1 + successes outs"
  "successes (Some e # outs) = successes outs"
  by (simp_all add: successes_def)

lemma failures_simps [simp]:
  "failures [] = []"
  "failures (None # outs) = failures outs"
  "failures (Some e # outs) = e # failures outs"
  by (simp_all add: failures_def)

lemma successes_nonneg: "0 \<le> successes outs"
  by (simp add: successes_def)















section \<open>Properties of ensure\<close>




lemma replicaCreated_count [simp]:
  "v_replicaCount (replicaCreated v r) = v_replicaCount v"
  by (auto simp: replicaCreated_def newReplica_def split: option.splits)




text \<open>The loop over the selected replicas.\<close>

lemma updateReplica_fst [simp]:
  "map fst (v_replicas (updateReplica v r)) = map fst (v_replicas v)"
  by (induction "v_replicas v" arbitrary: v) (auto simp: updateReplica_def split: prod.splits)

lemma updateReplica_other [simp]:
  "v_nexus (updateReplica v r) = v_nexus v" "v_replicaCount (updateReplica v r) = v_replicaCount v"
  by (simp_all add: updateReplica_def)






lemma childRemoved_node [simp]: "n_node (childRemoved nexus replica) = n_node nexus"
  by (simp add: childRemoved_def)

lemma childAdded_node [simp]: "n_node (childAdded nexus replica st) = n_node nexus"
  by (simp add: childAdded_def)



lemma nexusCreated_replicas [simp]: "v_replicas (nexusCreated v nx) = v_replicas v"
  by (auto simp: nexusCreated_def newNexus_def)















lemma example_selected:
  "map r_node (selectedReplicas exampleNodes exampleVolume startSys) = [''node2'', ''node3'']
   \<and> nexusNodeOf exampleNodes exampleVolume startSys = ''node2''
   \<and> int (length (v_replicas (afterReplenish exampleNodes exampleVolume startSys))) \<le> v_replicaCount exampleVolume"
  by code_simp

text \<open>
  The invariant holds for a new volume and is kept by the handlers for replica events.
\<close>

lemma Volume_wf: "wfReplicas (Volume uuid spec)"
  by (simp add: wfReplicas_def Volume_def)

lemma exampleVolume_constructed:
  "exampleVolume
     = Volume ''753b391c-9b04-4ce3-9c74-9d949152e547''
         \<lparr>vs_replicaCount = 2, vs_preferredNodes = [], vs_requiredNodes = [],
          vs_requiredBytes = 64, vs_limitBytes = 0\<rparr>"
  by (simp add: exampleVolume_def Volume_def)

lemma newReplica_wf: "wfReplicas v \<Longrightarrow> newReplica v r = Inr v' \<Longrightarrow> wfReplicas v'"
  by (auto simp: newReplica_def wfReplicas_def map_of_eq_None_iff
           split: option.splits if_splits)

lemma delReplica_wf: "wfReplicas v \<Longrightarrow> delReplica v r = Inr v' \<Longrightarrow> wfReplicas v'"
  by (auto simp: delReplica_def wfReplicas_def list_all_iff distinct_map_filter
           split: option.splits if_splits)

text \<open>
  A replica beyond the \<open>replicaCount\<close> best ranked is not touched: the degraded replica
  on \<^verbatim>\<open>node3\<close> of the volume of one replica stays unshared when the nexus is created
  on \<^verbatim>\<open>node2\<close>, and it stays in the volume, since its URI is also that of the child of
  the nexus.
\<close>

lemma ensure_leaves_excess_replica:
  "fst (ensure exampleNodes excessVolume startSys) = Inr ()
   \<and> map fst (v_replicas (fst (snd (ensure exampleNodes excessVolume startSys))))
       = [''node2'', ''node3'']
   \<and> map (r_share \<circ> snd) (v_replicas (fst (snd (ensure exampleNodes excessVolume startSys))))
       = [REPLICA_NONE, REPLICA_NONE]
   \<and> map_option n_node (v_nexus (fst (snd (ensure exampleNodes excessVolume startSys))))
       = Some ''node2''"
  by code_simp




end
